theory Spec2Isabelle
  imports Complex_Main "HOL-Library.Log_Nat"
begin

section \<open>JavaScript values used by the broker clients\<close>

text \<open>
  The three broker clients (\<^verbatim>\<open>DhanClient\<close>, \<^verbatim>\<open>UpstoxClient\<close>, \<^verbatim>\<open>ZerodhaClient\<close>) are
  JavaScript classes. The values their logic inspects are strings, numbers,
  \<^verbatim>\<open>undefined\<close> and, through property lookup on object literals, the members every
  object inherits from \<^verbatim>\<open>Object.prototype\<close>.

  A number is an IEEE 754 double. It is modelled by its value, a rational; the
  arithmetic on prices rounds each result to the nearest double (section ``Double
  arithmetic''). \<^verbatim>\<open>NaN\<close>, the infinities and the sign of zero are not modelled.
\<close>

datatype jsval =
    JUndefined
  | JNum rat
  | JStr string
  | JInherited string
      \<comment> \<open>the member of that name inherited from \<^verbatim>\<open>Object.prototype\<close>: a function
          object (for \<^verbatim>\<open>__proto__\<close> the prototype object itself)\<close>

text \<open>\<^verbatim>\<open>Boolean(v)\<close>, the test behind \<^verbatim>\<open>!v\<close>, \<^verbatim>\<open>v || d\<close> and \<^verbatim>\<open>c && v\<close>.\<close>

fun truthy :: "jsval \<Rightarrow> bool" where
  "truthy JUndefined = False"
| "truthy (JNum r) = (r \<noteq> 0)"
| "truthy (JStr s) = (s \<noteq> [])"
| "truthy (JInherited n) = True"

text \<open>An optional string property: absent is \<^verbatim>\<open>undefined\<close>.\<close>

fun str_val :: "string option \<Rightarrow> jsval" where
  "str_val None = JUndefined"
| "str_val (Some s) = JStr s"

text \<open>\<^verbatim>\<open>s || d\<close> for an optional string \<open>s\<close>: absent and empty are both falsy.\<close>

fun str_or :: "string option \<Rightarrow> string \<Rightarrow> string" where
  "str_or None d = d"
| "str_or (Some s) d = (if s = [] then d else s)"

text \<open>
  \<^verbatim>\<open>p\<close> for an optional numeric property tested by truthiness (\<^verbatim>\<open>cond && params.price\<close>):
  absent and \<open>0\<close> are both falsy.
\<close>

fun num_truthy :: "rat option \<Rightarrow> bool" where
  "num_truthy None = False"
| "num_truthy (Some r) = (r \<noteq> 0)"

subsection \<open>Case conversion\<close>

text \<open>
  \<^verbatim>\<open>String.prototype.toUpperCase\<close> and \<^verbatim>\<open>toLowerCase\<close> on ASCII text: the letters
  \<^verbatim>\<open>a\<close>..\<^verbatim>\<open>z\<close> (codes 97..122) and \<^verbatim>\<open>A\<close>..\<^verbatim>\<open>Z\<close> (65..90) are exchanged, every
  other character is kept. Trading symbols and order statuses are ASCII.
\<close>

definition upper_char :: "char \<Rightarrow> char" where
  "upper_char c =
     (let n = (of_char c :: nat) in if 97 \<le> n \<and> n \<le> 122 then char_of (n - 32) else c)"

definition lower_char :: "char \<Rightarrow> char" where
  "lower_char c =
     (let n = (of_char c :: nat) in if 65 \<le> n \<and> n \<le> 90 then char_of (n + 32) else c)"

definition toUpperCase :: "string \<Rightarrow> string" where
  "toUpperCase s = map upper_char s"

definition toLowerCase :: "string \<Rightarrow> string" where
  "toLowerCase s = map lower_char s"

subsection \<open>Property lookup on an object literal\<close>

text \<open>
  \<^verbatim>\<open>obj[key]\<close> for an object literal \<open>obj\<close> with string-valued own properties: an own
  property wins; otherwise the lookup continues in \<^verbatim>\<open>Object.prototype\<close>, whose members
  are listed below (ECMAScript, with the legacy accessors every Node.js has);
  otherwise the result is \<^verbatim>\<open>undefined\<close>.
\<close>

definition object_prototype_members :: "string list" where
  "object_prototype_members =
     [''constructor'', ''hasOwnProperty'', ''isPrototypeOf'', ''propertyIsEnumerable'',
      ''toLocaleString'', ''toString'', ''valueOf'', ''__proto__'',
      ''__defineGetter__'', ''__defineSetter__'', ''__lookupGetter__'', ''__lookupSetter__'']"

definition js_get :: "(string \<times> string) list \<Rightarrow> string \<Rightarrow> jsval" where
  "js_get obj key =
     (case map_of obj key of
        Some v \<Rightarrow> JStr v
      | None \<Rightarrow> if key \<in> set object_prototype_members then JInherited key else JUndefined)"

text \<open>\<^verbatim>\<open>a || b\<close> on values.\<close>

definition js_or :: "jsval \<Rightarrow> jsval \<Rightarrow> jsval" where
  "js_or a b = (if truthy a then a else b)"

section \<open>Product and order-type mapping\<close>

text \<open>\<^verbatim>\<open>DhanClient._mapProduct\<close> and \<^verbatim>\<open>DhanClient._mapOrderType\<close>.\<close>

definition dhan_productMap :: "(string \<times> string) list" where
  "dhan_productMap =
     [(''INTRADAY'', ''INTRADAY''), (''DELIVERY'', ''DELIVERY''), (''MARGIN'', ''MARGIN''),
      (''NORMAL'', ''NORMAL''), (''MIS'', ''INTRADAY''), (''CNC'', ''DELIVERY''),
      (''NRML'', ''NORMAL'')]"

definition dhan_mapProduct :: "string \<Rightarrow> jsval" where
  "dhan_mapProduct product = js_or (js_get dhan_productMap product) (JStr ''INTRADAY'')"

definition dhan_orderTypeMap :: "(string \<times> string) list" where
  "dhan_orderTypeMap =
     [(''MARKET'', ''MARKET''), (''LIMIT'', ''LIMIT''), (''SL'', ''SL''), (''SL-M'', ''SLM'')]"

definition dhan_mapOrderType :: "string \<Rightarrow> jsval" where
  "dhan_mapOrderType orderType = js_or (js_get dhan_orderTypeMap orderType) (JStr ''MARKET'')"

text \<open>\<^verbatim>\<open>ZerodhaClient._mapProduct\<close> and \<^verbatim>\<open>ZerodhaClient._mapOrderType\<close>.\<close>

definition zerodha_productMap :: "(string \<times> string) list" where
  "zerodha_productMap =
     [(''INTRADAY'', ''MIS''), (''DELIVERY'', ''CNC''), (''NORMAL'', ''NRML''),
      (''MIS'', ''MIS''), (''CNC'', ''CNC''), (''NRML'', ''NRML'')]"

definition zerodha_mapProduct :: "string \<Rightarrow> jsval" where
  "zerodha_mapProduct product = js_or (js_get zerodha_productMap product) (JStr ''MIS'')"

definition zerodha_orderTypeMap :: "(string \<times> string) list" where
  "zerodha_orderTypeMap =
     [(''MARKET'', ''MARKET''), (''LIMIT'', ''LIMIT''), (''SL'', ''SL''), (''SL-M'', ''SL-M'')]"

definition zerodha_mapOrderType :: "string \<Rightarrow> jsval" where
  "zerodha_mapOrderType orderType =
     js_or (js_get zerodha_orderTypeMap orderType) (JStr ''MARKET'')"

section \<open>Errors, transport calls and settled promises\<close>

text \<open>
  Every \<^verbatim>\<open>throw\<close> and every rejected request is a value: \<open>Inl e\<close> of a result type
  \<open>error + 'a\<close> stands for the exception (or the rejected promise) carrying \<open>e\<close>.
\<close>

datatype error =
    CacheNotLoaded
      \<comment> \<open>\<^verbatim>\<open>new Error("Instruments cache not loaded")\<close>\<close>
  | InstrumentNotFound jsval
      \<comment> \<open>\<^verbatim>\<open>new Error(`Instrument not found: ${params.symbolName}`)\<close>\<close>
  | BrokerError string
      \<comment> \<open>a request the HTTP client or the broker SDK rejected, with its message\<close>
  | TypeError
      \<comment> \<open>a property read or method call on \<^verbatim>\<open>undefined\<close>\<close>

text \<open>
  The requests a client hands to its transport (the axios instance, or the KiteConnect
  SDK). An operation returns the requests it issued together with its outcome. Requests
  appear in the order of the list the operation iterates over; how the concurrent
  requests of one bulk operation interleave in time is not part of the model.
\<close>

datatype 'req call =
    ListOrders
  | ListPositions
  | CancelOrder jsval
  | GetLTP string jsval
  | PlaceOrder 'req

text \<open>
  \<^verbatim>\<open>await Promise.all(promises)\<close> on settled promises: the list of values when every
  promise is fulfilled, otherwise a rejection. (Of several rejections JavaScript reports
  the one that settles first; the model reports the first in list order.)
\<close>

fun promise_all :: "(error + 'a) list \<Rightarrow> error + 'a list" where
  "promise_all [] = Inr []"
| "promise_all (Inl e # ps) = Inl e"
| "promise_all (Inr x # ps) =
     (case promise_all ps of Inl e \<Rightarrow> Inl e | Inr xs \<Rightarrow> Inr (x # xs))"

text \<open>
  The sub-operations of a bulk operation are all started before any is awaited, so all
  their requests are issued whatever the outcomes are.
\<close>

definition run_all :: "('c list \<times> (error + 'a)) list \<Rightarrow> 'c list \<times> (error + 'a list)" where
  "run_all ps = (concat (map fst ps), promise_all (map snd ps))"

text \<open>What a callback hands back: \<^verbatim>\<open>null\<close> or a value.\<close>

datatype 'a nullable = Null | Val 'a

text \<open>\<^verbatim>\<open>Boolean(x)\<close> for \<^verbatim>\<open>null\<close> or an object.\<close>

fun Boolean_nullable :: "'a nullable \<Rightarrow> bool" where
  "Boolean_nullable Null = False"
| "Boolean_nullable (Val x) = True"

text \<open>\<^verbatim>\<open>Boolean(p)\<close> for a promise \<open>p\<close>: a promise is an object, whatever it settles to.\<close>

definition Boolean_promise :: "'c list \<times> (error + 'a) \<Rightarrow> bool" where
  "Boolean_promise p = True"

fun values_of :: "'a nullable list \<Rightarrow> 'a list" where
  "values_of [] = []"
| "values_of (Null # xs) = values_of xs"
| "values_of (Val x # xs) = x # values_of xs"

text \<open>The broker behind a client: what each request is answered with.\<close>

record order =
  o_orderId :: jsval
    \<comment> \<open>\<^verbatim>\<open>order.orderId\<close> (Dhan), \<^verbatim>\<open>order.order_id\<close> (Zerodha)\<close>
  o_status :: string

record ('req, 'pos) broker =
  orders_api :: "error + order list option"
    \<comment> \<open>the order list of the response; \<open>None\<close> when the response carries none\<close>
  positions_api :: "error + 'pos list option"
  cancel_api :: "jsval \<Rightarrow> error + jsval"
    \<comment> \<open>the cancel request for an order id; on success the order id of the response\<close>
  place_api :: "'req \<Rightarrow> error + jsval"
    \<comment> \<open>the order request; on success the order id of the response\<close>
  ltp_api :: "string \<Rightarrow> jsval \<Rightarrow> error + rat"
    \<comment> \<open>the quote request for exchange and instrument; on success the last traded price\<close>

text \<open>The object \<^verbatim>\<open>placeOrder\<close> and \<^verbatim>\<open>cancelOrder\<close> return.\<close>

record order_result =
  r_orderId :: jsval
  r_status :: string
  r_message :: string

text \<open>
  The object a bulk operation returns. Its \<^verbatim>\<open>message\<close> is a fixed sentence around
  \<^verbatim>\<open>results.length\<close>; \<open>agg_count\<close> is that number.
\<close>

record 'a aggregate =
  agg_success :: bool
  agg_count :: nat
  agg_details :: "'a list"

definition aggregate_of :: "'a list \<Rightarrow> 'a aggregate" where
  "aggregate_of results =
     \<lparr>agg_success = True, agg_count = length results, agg_details = results\<rparr>"

text \<open>The \<^verbatim>\<open>params\<close> object of \<^verbatim>\<open>placeOrder\<close>; an absent property is \<open>None\<close> / \<open>JUndefined\<close>.\<close>

record order_params =
  p_symbolName :: "string option"
  p_securityId :: jsval
  p_exchange :: "string option"
  p_transactionType :: string
  p_orderType :: string
  p_quantity :: int
  p_price :: "rat option"
  p_triggerPrice :: "rat option"
  p_validity :: "string option"
  p_variety :: "string option"
  p_product :: "string option"

section \<open>Instrument catalogs and lookup\<close>

text \<open>
  \<^verbatim>\<open>this.instrumentsCache\<close> is \<^verbatim>\<open>null\<close> (\<open>None\<close>) until a catalog is loaded.
  \<^verbatim>\<open>getInstrumentDetails\<close> throws on \<^verbatim>\<open>null\<close> and otherwise returns
  \<^verbatim>\<open>Array.prototype.find\<close> of the match test: the first matching entry, or
  \<^verbatim>\<open>undefined\<close> (\<open>None\<close>).
\<close>

record dhan_instrument =
  di_tradingSymbol :: string
  di_securityId :: jsval
  di_exchange :: string
  di_exchangeToken :: jsval

fun dhan_matches :: "jsval \<Rightarrow> dhan_instrument \<Rightarrow> bool" where
  "dhan_matches (JStr k) i =
     (di_tradingSymbol i = k
      \<or> toUpperCase (di_tradingSymbol i) = toUpperCase k
      \<or> di_securityId i = JStr k)"
| "dhan_matches (JNum n) i = (di_exchangeToken i = JNum n)"
| "dhan_matches k i = False"

definition dhan_getInstrumentDetails ::
  "dhan_instrument list option \<Rightarrow> jsval \<Rightarrow> error + dhan_instrument option" where
  "dhan_getInstrumentDetails instrumentsCache securityId =
     (case instrumentsCache of
        None \<Rightarrow> Inl CacheNotLoaded
      | Some instruments \<Rightarrow> Inr (find (dhan_matches securityId) instruments))"

record zerodha_instrument =
  zi_tradingsymbol :: string
  zi_instrument_token :: jsval
  zi_exchange :: string

fun zerodha_matches :: "jsval \<Rightarrow> zerodha_instrument \<Rightarrow> bool" where
  "zerodha_matches (JStr k) i = (zi_tradingsymbol i = k)"
| "zerodha_matches (JNum n) i = (zi_instrument_token i = JNum n)"
| "zerodha_matches k i = False"

definition zerodha_getInstrumentDetails ::
  "zerodha_instrument list option \<Rightarrow> jsval \<Rightarrow> error + zerodha_instrument option" where
  "zerodha_getInstrumentDetails instrumentsCache securityId =
     (case instrumentsCache of
        None \<Rightarrow> Inl CacheNotLoaded
      | Some instruments \<Rightarrow> Inr (find (zerodha_matches securityId) instruments))"

record upstox_instrument =
  ui_tradingsymbol :: string
  ui_instrument_token :: jsval
  ui_instrument_key :: jsval
  ui_exchange :: string

definition upstox_matches :: "jsval \<Rightarrow> upstox_instrument \<Rightarrow> bool" where
  "upstox_matches k i =
     (JStr (ui_tradingsymbol i) = k \<or> ui_instrument_token i = k \<or> ui_instrument_key i = k)"

definition upstox_getInstrumentDetails ::
  "upstox_instrument list option \<Rightarrow> jsval \<Rightarrow> error + upstox_instrument option" where
  "upstox_getInstrumentDetails instrumentsCache securityId =
     (case instrumentsCache of
        None \<Rightarrow> Inl CacheNotLoaded
      | Some instruments \<Rightarrow> Inr (find (upstox_matches securityId) instruments))"

section \<open>Building the broker request in \<^verbatim>\<open>placeOrder\<close>\<close>

text \<open>
  \<^verbatim>\<open>DhanClient.placeOrder\<close>. Without a truthy \<^verbatim>\<open>params.securityId\<close> the instrument is
  looked up by \<^verbatim>\<open>params.symbolName\<close>. The request object then gets the fixed properties
  and, under the two guards, \<^verbatim>\<open>price\<close> and \<^verbatim>\<open>triggerPrice\<close> (\<open>None\<close>: the request has no
  such property). The price guard reads \<^verbatim>\<open>params.orderType\<close>, the trigger guard reads
  the mapped \<^verbatim>\<open>orderRequest.orderType\<close>.
\<close>

record dhan_request =
  dr_securityId :: jsval
  dr_exchange :: jsval
  dr_quantity :: int
  dr_product :: jsval
  dr_validity :: string
  dr_orderType :: jsval
  dr_transactionType :: string
  dr_disclosedQuantity :: int
  dr_source :: string
  dr_price :: "rat option"
  dr_triggerPrice :: "rat option"

definition dhan_build :: "jsval \<Rightarrow> jsval \<Rightarrow> order_params \<Rightarrow> dhan_request" where
  "dhan_build securityId exchange params =
     (let orderType = dhan_mapOrderType (p_orderType params) in
      \<lparr>dr_securityId = securityId,
       dr_exchange = exchange,
       dr_quantity = p_quantity params,
       dr_product = dhan_mapProduct (str_or (p_product params) ''INTRADAY''),
       dr_validity = str_or (map_option toUpperCase (p_validity params)) ''DAY'',
       dr_orderType = orderType,
       dr_transactionType = p_transactionType params,
       dr_disclosedQuantity = 0,
       dr_source = ''API'',
       dr_price =
         (if p_orderType params \<in> set [''LIMIT'', ''SL''] \<and> num_truthy (p_price params)
          then p_price params else None),
       dr_triggerPrice =
         (if orderType \<in> set [JStr ''SL'', JStr ''SLM''] \<and> num_truthy (p_triggerPrice params)
          then p_triggerPrice params else None)\<rparr>)"

definition dhan_orderRequest ::
  "dhan_instrument list option \<Rightarrow> order_params \<Rightarrow> error + dhan_request" where
  "dhan_orderRequest instrumentsCache params =
     (if \<not> truthy (p_securityId params) then
        (case dhan_getInstrumentDetails instrumentsCache (str_val (p_symbolName params)) of
           Inl e \<Rightarrow> Inl e
         | Inr None \<Rightarrow> Inl (InstrumentNotFound (str_val (p_symbolName params)))
         | Inr (Some instrument) \<Rightarrow>
             Inr (dhan_build (di_securityId instrument) (JStr (di_exchange instrument)) params))
      else Inr (dhan_build (p_securityId params) (str_val (p_exchange params)) params))"

definition dhan_placeOrder ::
  "(dhan_request, 'pos) broker \<Rightarrow> dhan_instrument list option \<Rightarrow> order_params \<Rightarrow>
     dhan_request call list \<times> (error + order_result)" where
  "dhan_placeOrder env instrumentsCache params =
     (case dhan_orderRequest instrumentsCache params of
        Inl e \<Rightarrow> ([], Inl e)
      | Inr orderRequest \<Rightarrow>
          ([PlaceOrder orderRequest],
           case place_api env orderRequest of
             Inl e \<Rightarrow> Inl e
           | Inr orderId \<Rightarrow>
               Inr \<lparr>r_orderId = orderId, r_status = ''success'',
                    r_message = ''Order placed successfully''\<rparr>))"

text \<open>
  \<^verbatim>\<open>ZerodhaClient.placeOrder\<close>. The instrument is looked up only when
  \<^verbatim>\<open>params.exchange\<close> or \<^verbatim>\<open>params.symbolName\<close> is falsy. Both guards read
  \<^verbatim>\<open>params.orderType\<close>.
\<close>

record zerodha_request =
  zr_exchange :: string
  zr_tradingsymbol :: string
  zr_transaction_type :: string
  zr_quantity :: int
  zr_product :: jsval
  zr_order_type :: jsval
  zr_validity :: string
  zr_variety :: string
  zr_price :: "rat option"
  zr_trigger_price :: "rat option"

definition zerodha_build :: "string \<Rightarrow> string \<Rightarrow> order_params \<Rightarrow> zerodha_request" where
  "zerodha_build exchange tradingSymbol params =
     \<lparr>zr_exchange = exchange,
      zr_tradingsymbol = tradingSymbol,
      zr_transaction_type = p_transactionType params,
      zr_quantity = p_quantity params,
      zr_product = zerodha_mapProduct (str_or (p_product params) ''INTRADAY''),
      zr_order_type = zerodha_mapOrderType (p_orderType params),
      zr_validity = str_or (map_option toLowerCase (p_validity params)) ''day'',
      zr_variety = str_or (map_option toLowerCase (p_variety params)) ''regular'',
      zr_price =
        (if p_orderType params \<in> set [''LIMIT'', ''SL''] \<and> num_truthy (p_price params)
         then p_price params else None),
      zr_trigger_price =
        (if p_orderType params \<in> set [''SL'', ''SL-M''] \<and> num_truthy (p_triggerPrice params)
         then p_triggerPrice params else None)\<rparr>"

definition zerodha_orderRequest ::
  "zerodha_instrument list option \<Rightarrow> order_params \<Rightarrow> error + zerodha_request" where
  "zerodha_orderRequest instrumentsCache params =
     (if str_or (p_exchange params) [] = [] \<or> str_or (p_symbolName params) [] = [] then
        (case zerodha_getInstrumentDetails instrumentsCache (str_val (p_symbolName params)) of
           Inl e \<Rightarrow> Inl e
         | Inr None \<Rightarrow> Inl (InstrumentNotFound (str_val (p_symbolName params)))
         | Inr (Some instrument) \<Rightarrow>
             Inr (zerodha_build (zi_exchange instrument) (zi_tradingsymbol instrument) params))
      else Inr (zerodha_build (the (p_exchange params)) (the (p_symbolName params)) params))"

definition zerodha_placeOrder ::
  "(zerodha_request, 'pos) broker \<Rightarrow> zerodha_instrument list option \<Rightarrow> order_params \<Rightarrow>
     zerodha_request call list \<times> (error + order_result)" where
  "zerodha_placeOrder env instrumentsCache params =
     (case zerodha_orderRequest instrumentsCache params of
        Inl e \<Rightarrow> ([], Inl e)
      | Inr orderRequest \<Rightarrow>
          ([PlaceOrder orderRequest],
           case place_api env orderRequest of
             Inl e \<Rightarrow> Inl e
           | Inr orderId \<Rightarrow>
               Inr \<lparr>r_orderId = orderId, r_status = ''success'',
                    r_message = ''Order placed successfully''\<rparr>))"

text \<open>
  \<^verbatim>\<open>UpstoxClient.placeOrder\<close>. The instrument is always looked up by
  \<^verbatim>\<open>params.symbolName\<close>; product and order type go out unmapped; the price guard is
  \<^verbatim>\<open>params.orderType === "LIMIT" && params.price\<close>.
\<close>

record upstox_request =
  ur_instrument_token :: jsval
  ur_exchange :: string
  ur_transaction_type :: string
  ur_order_type :: string
  ur_quantity :: int
  ur_product :: string
  ur_validity :: string
  ur_price :: "rat option"
  ur_trigger_price :: "rat option"

definition upstox_build :: "upstox_instrument \<Rightarrow> order_params \<Rightarrow> upstox_request" where
  "upstox_build instrument params =
     \<lparr>ur_instrument_token = ui_instrument_token instrument,
      ur_exchange = str_or (p_exchange params) (ui_exchange instrument),
      ur_transaction_type = p_transactionType params,
      ur_order_type = p_orderType params,
      ur_quantity = p_quantity params,
      ur_product = str_or (p_product params) ''INTRADAY'',
      ur_validity = str_or (p_validity params) ''DAY'',
      ur_price =
        (if p_orderType params = ''LIMIT'' \<and> num_truthy (p_price params)
         then p_price params else None),
      ur_trigger_price =
        (if p_orderType params \<in> set [''SL'', ''SL-M''] \<and> num_truthy (p_triggerPrice params)
         then p_triggerPrice params else None)\<rparr>"

definition upstox_orderRequest ::
  "upstox_instrument list option \<Rightarrow> order_params \<Rightarrow> error + upstox_request" where
  "upstox_orderRequest instrumentsCache params =
     (case upstox_getInstrumentDetails instrumentsCache (str_val (p_symbolName params)) of
        Inl e \<Rightarrow> Inl e
      | Inr None \<Rightarrow> Inl (InstrumentNotFound (str_val (p_symbolName params)))
      | Inr (Some instrument) \<Rightarrow> Inr (upstox_build instrument params))"

section \<open>Cancelling all open orders\<close>

text \<open>
  \<^verbatim>\<open>listOrders\<close>: Dhan returns \<^verbatim>\<open>response.data || []\<close>; Zerodha returns what the SDK
  returns, and a missing list makes the following \<^verbatim>\<open>orders.filter\<close> throw.
\<close>

definition dhan_listOrders ::
  "('req, 'pos) broker \<Rightarrow> 'req call list \<times> (error + order list)" where
  "dhan_listOrders env =
     ([ListOrders],
      case orders_api env of
        Inl e \<Rightarrow> Inl e
      | Inr None \<Rightarrow> Inr []
      | Inr (Some orders) \<Rightarrow> Inr orders)"

definition zerodha_listOrders ::
  "('req, 'pos) broker \<Rightarrow> 'req call list \<times> (error + order list)" where
  "zerodha_listOrders env =
     ([ListOrders],
      case orders_api env of
        Inl e \<Rightarrow> Inl e
      | Inr None \<Rightarrow> Inl TypeError
      | Inr (Some orders) \<Rightarrow> Inr orders)"

text \<open>
  \<^verbatim>\<open>cancelOrder\<close> sends the cancel request and rethrows its failure. On success Dhan
  reports the id it was given, Zerodha the \<^verbatim>\<open>order_id\<close> of the response.
\<close>

definition dhan_cancelOrder ::
  "('req, 'pos) broker \<Rightarrow> jsval \<Rightarrow> 'req call list \<times> (error + order_result)" where
  "dhan_cancelOrder env orderId =
     ([CancelOrder orderId],
      case cancel_api env orderId of
        Inl e \<Rightarrow> Inl e
      | Inr response \<Rightarrow>
          Inr \<lparr>r_orderId = orderId, r_status = ''success'',
               r_message = ''Order cancelled successfully''\<rparr>)"

definition zerodha_cancelOrder ::
  "('req, 'pos) broker \<Rightarrow> jsval \<Rightarrow> 'req call list \<times> (error + order_result)" where
  "zerodha_cancelOrder env orderId =
     ([CancelOrder orderId],
      case cancel_api env orderId of
        Inl e \<Rightarrow> Inl e
      | Inr response \<Rightarrow>
          Inr \<lparr>r_orderId = response, r_status = ''success'',
               r_message = ''Order cancelled successfully''\<rparr>)"

text \<open>The statuses that count as still live (Dhan and Zerodha use the same three).\<close>

definition open_statuses :: "string list" where
  "open_statuses = [''open'', ''pending'', ''trigger pending'']"

definition openOrders :: "order list \<Rightarrow> order list" where
  "openOrders orders = filter (\<lambda>order. toLowerCase (o_status order) \<in> set open_statuses) orders"

text \<open>
  \<^verbatim>\<open>cancelAllOrders\<close>: list, filter, start one \<^verbatim>\<open>cancelOrder\<close> per open order, await
  them with \<^verbatim>\<open>Promise.all\<close>, and wrap the results. The \<^verbatim>\<open>catch\<close> rethrows.
\<close>

definition dhan_cancelAllOrders ::
  "('req, 'pos) broker \<Rightarrow> 'req call list \<times> (error + order_result aggregate)" where
  "dhan_cancelAllOrders env =
     (case dhan_listOrders env of
        (t, Inl e) \<Rightarrow> (t, Inl e)
      | (t, Inr orders) \<Rightarrow>
          (case run_all (map (\<lambda>order. dhan_cancelOrder env (o_orderId order)) (openOrders orders)) of
             (t', Inl e) \<Rightarrow> (t @ t', Inl e)
           | (t', Inr results) \<Rightarrow> (t @ t', Inr (aggregate_of results))))"

definition zerodha_cancelAllOrders ::
  "('req, 'pos) broker \<Rightarrow> 'req call list \<times> (error + order_result aggregate)" where
  "zerodha_cancelAllOrders env =
     (case zerodha_listOrders env of
        (t, Inl e) \<Rightarrow> (t, Inl e)
      | (t, Inr orders) \<Rightarrow>
          (case run_all (map (\<lambda>order. zerodha_cancelOrder env (o_orderId order)) (openOrders orders)) of
             (t', Inl e) \<Rightarrow> (t @ t', Inl e)
           | (t', Inr results) \<Rightarrow> (t @ t', Inr (aggregate_of results))))"

section \<open>Exiting all positions\<close>

text \<open>
  \<^verbatim>\<open>listPositions\<close>: Dhan returns \<^verbatim>\<open>response.data || []\<close>; Zerodha returns
  \<^verbatim>\<open>positions.net\<close>, and a missing list makes the caller's \<^verbatim>\<open>positions.map\<close> throw.
\<close>

record dhan_position =
  dp_securityId :: jsval
  dp_exchange :: string
  dp_quantity :: int
  dp_product :: "string option"

record zerodha_position =
  zp_tradingsymbol :: string
  zp_exchange :: string
  zp_quantity :: int
  zp_product :: "string option"

definition dhan_listPositions ::
  "('req, 'pos) broker \<Rightarrow> 'req call list \<times> (error + 'pos list)" where
  "dhan_listPositions env =
     ([ListPositions],
      case positions_api env of
        Inl e \<Rightarrow> Inl e
      | Inr None \<Rightarrow> Inr []
      | Inr (Some positions) \<Rightarrow> Inr positions)"

definition zerodha_listPositions ::
  "('req, 'pos) broker \<Rightarrow> 'req call list \<times> (error + 'pos list)" where
  "zerodha_listPositions env =
     ([ListPositions],
      case positions_api env of
        Inl e \<Rightarrow> Inl e
      | Inr None \<Rightarrow> Inl TypeError
      | Inr (Some positions) \<Rightarrow> Inr positions)"

subsection \<open>Market exit\<close>

text \<open>
  The callback of \<^verbatim>\<open>exitAllPositions\<close> is an ordinary function: it returns \<^verbatim>\<open>null\<close> for
  a zero quantity and otherwise the promise of \<^verbatim>\<open>placeOrder\<close>, called with the object
  below. \<^verbatim>\<open>.filter(Boolean)\<close> then drops the \<^verbatim>\<open>null\<close>s.
\<close>

definition dhan_market_params :: "dhan_position \<Rightarrow> order_params" where
  "dhan_market_params position =
     \<lparr>p_symbolName = None,
      p_securityId = dp_securityId position,
      p_exchange = Some (dp_exchange position),
      p_transactionType = (if dp_quantity position > 0 then ''SELL'' else ''BUY''),
      p_orderType = ''MARKET'',
      p_quantity = \<bar>dp_quantity position\<bar>,
      p_price = None,
      p_triggerPrice = None,
      p_validity = None,
      p_variety = None,
      p_product = dp_product position\<rparr>"

definition dhan_market_callback ::
  "(dhan_position \<Rightarrow> 'a) \<Rightarrow> dhan_position \<Rightarrow> 'a nullable" where
  "dhan_market_callback submit position =
     (if dp_quantity position = 0 then Null else Val (submit position))"

definition dhan_exitAllPositions ::
  "(dhan_request, dhan_position) broker \<Rightarrow> dhan_instrument list option \<Rightarrow>
     dhan_request call list \<times> (error + order_result aggregate)" where
  "dhan_exitAllPositions env instrumentsCache =
     (case dhan_listPositions env of
        (t, Inl e) \<Rightarrow> (t, Inl e)
      | (t, Inr positions) \<Rightarrow>
          (case run_all (values_of (filter Boolean_nullable
                  (map (dhan_market_callback
                         (\<lambda>position. dhan_placeOrder env instrumentsCache
                                        (dhan_market_params position)))
                       positions))) of
             (t', Inl e) \<Rightarrow> (t @ t', Inl e)
           | (t', Inr results) \<Rightarrow> (t @ t', Inr (aggregate_of results))))"

definition zerodha_market_params :: "zerodha_position \<Rightarrow> order_params" where
  "zerodha_market_params position =
     \<lparr>p_symbolName = Some (zp_tradingsymbol position),
      p_securityId = JUndefined,
      p_exchange = Some (zp_exchange position),
      p_transactionType = (if zp_quantity position > 0 then ''SELL'' else ''BUY''),
      p_orderType = ''MARKET'',
      p_quantity = \<bar>zp_quantity position\<bar>,
      p_price = None,
      p_triggerPrice = None,
      p_validity = None,
      p_variety = None,
      p_product = zp_product position\<rparr>"

definition zerodha_market_callback ::
  "(zerodha_position \<Rightarrow> 'a) \<Rightarrow> zerodha_position \<Rightarrow> 'a nullable" where
  "zerodha_market_callback submit position =
     (if zp_quantity position = 0 then Null else Val (submit position))"

definition zerodha_exitAllPositions ::
  "(zerodha_request, zerodha_position) broker \<Rightarrow> zerodha_instrument list option \<Rightarrow>
     zerodha_request call list \<times> (error + order_result aggregate)" where
  "zerodha_exitAllPositions env instrumentsCache =
     (case zerodha_listPositions env of
        (t, Inl e) \<Rightarrow> (t, Inl e)
      | (t, Inr positions) \<Rightarrow>
          (case run_all (values_of (filter Boolean_nullable
                  (map (zerodha_market_callback
                         (\<lambda>position. zerodha_placeOrder env instrumentsCache
                                        (zerodha_market_params position)))
                       positions))) of
             (t', Inl e) \<Rightarrow> (t @ t', Inl e)
           | (t', Inr results) \<Rightarrow> (t @ t', Inr (aggregate_of results))))"

subsection \<open>Double arithmetic\<close>

text \<open>
  The result of \<^verbatim>\<open>+\<close>, \<^verbatim>\<open>-\<close>, \<^verbatim>\<open>*\<close> and \<^verbatim>\<open>/\<close> on doubles is the exact result rounded
  to the nearest double, a tie going to the double with the even significand. For
  \<open>x \<noteq> 0\<close> with \<^verbatim>\<open>2^e <= |x| < 2^(e+1)\<close> the doubles around \<open>x\<close> are the integer
  multiples of \<^verbatim>\<open>2^(e-52)\<close> (53 significant bits). \<open>exponent_of\<close> computes \<open>e\<close> from
  the bit lengths of numerator and denominator. Overflow beyond \<^verbatim>\<open>2^1024\<close> and the
  subnormal range below \<^verbatim>\<open>2^-1022\<close> are not modelled; prices and percentages are far
  inside.
\<close>

definition round_half_even :: "rat \<Rightarrow> int" where
  "round_half_even q =
     (let f = \<lfloor>q\<rfloor>; r = q - of_int f in
      if r < 1 / 2 then f else if 1 / 2 < r then f + 1 else if even f then f else f + 1)"

definition exponent_of :: "rat \<Rightarrow> int" where
  "exponent_of x =
     (let (p, q) = quotient_of \<bar>x\<bar>;
          d = int (floorlog 2 (nat p)) - int (floorlog 2 (nat q))
      in if 2 powi d \<le> \<bar>x\<bar> then d else d - 1)"

definition to_double :: "rat \<Rightarrow> rat" where
  "to_double x =
     (if x = 0 then 0
      else (let ulp = 2 powi (exponent_of x - 52) in of_int (round_half_even (x / ulp)) * ulp))"

definition js_add :: "rat \<Rightarrow> rat \<Rightarrow> rat" where
  "js_add a b = to_double (a + b)"

definition js_sub :: "rat \<Rightarrow> rat \<Rightarrow> rat" where
  "js_sub a b = to_double (a - b)"

definition js_mul :: "rat \<Rightarrow> rat \<Rightarrow> rat" where
  "js_mul a b = to_double (a * b)"

definition js_div :: "rat \<Rightarrow> rat \<Rightarrow> rat" where
  "js_div a b = to_double (a / b)"

subsection \<open>Price rounding\<close>

text \<open>
  \<^verbatim>\<open>Math.round(x)\<close> is the integer nearest to \<open>x\<close>, a tie going towards \<open>+\<infinity>\<close>; it is
  exact. The exit variants apply \<^verbatim>\<open>Math.round(price * 100) / 100\<close>, whose product and
  quotient are double operations.
\<close>

definition Math_round :: "rat \<Rightarrow> int" where
  "Math_round x = \<lfloor>x + 1 / 2\<rfloor>"

definition round2 :: "rat \<Rightarrow> rat" where
  "round2 price = js_div (of_int (Math_round (js_mul price 100))) 100"

text \<open>\<^verbatim>\<open>n || d\<close> for an optional number \<open>n\<close>.\<close>

fun num_or :: "rat option \<Rightarrow> rat \<Rightarrow> rat" where
  "num_or None d = d"
| "num_or (Some r) d = (if r = 0 then d else r)"

subsection \<open>Limit exit\<close>

text \<open>
  The callbacks of \<^verbatim>\<open>exitAllPositionsLimit\<close> and \<^verbatim>\<open>exitAllPositionsAddStopLoss\<close> are
  \<^verbatim>\<open>async\<close> functions: each call returns a promise, also the one that returns
  \<^verbatim>\<open>null\<close>. \<^verbatim>\<open>.filter(Boolean)\<close> therefore sees promise objects only, and
  \<^verbatim>\<open>Promise.all\<close> yields one entry per position, \<^verbatim>\<open>null\<close> for a zero quantity.

  Dhan adds the offset for a SELL and subtracts it for a BUY; Zerodha subtracts it for a
  SELL and adds it for a BUY.
\<close>

definition dhan_limitPrice :: "string \<Rightarrow> rat \<Rightarrow> rat \<Rightarrow> rat" where
  "dhan_limitPrice transactionType ltp priceOffset =
     round2 (if transactionType = ''SELL'' then js_mul ltp (js_add 1 (js_div priceOffset 100))
             else js_mul ltp (js_sub 1 (js_div priceOffset 100)))"

definition dhan_limit_params :: "rat option \<Rightarrow> dhan_position \<Rightarrow> rat \<Rightarrow> order_params" where
  "dhan_limit_params priceOffset position ltp =
     (let transactionType = (if dp_quantity position > 0 then ''SELL'' else ''BUY'') in
      \<lparr>p_symbolName = None,
       p_securityId = dp_securityId position,
       p_exchange = Some (dp_exchange position),
       p_transactionType = transactionType,
       p_orderType = ''LIMIT'',
       p_quantity = \<bar>dp_quantity position\<bar>,
       p_price = Some (dhan_limitPrice transactionType ltp (num_or priceOffset 0)),
       p_triggerPrice = None,
       p_validity = None,
       p_variety = None,
       p_product = dp_product position\<rparr>)"

text \<open>
  In the Dhan client the limit exit and the stop-loss exit have the same body up to the
  order they build from the position and its last traded price; \<open>order_for\<close> stands for
  that part.
\<close>

definition dhan_priced_callback ::
  "(dhan_request, dhan_position) broker \<Rightarrow> dhan_instrument list option \<Rightarrow>
     (dhan_position \<Rightarrow> rat \<Rightarrow> order_params) \<Rightarrow> dhan_position \<Rightarrow>
     dhan_request call list \<times> (error + order_result nullable)" where
  "dhan_priced_callback env instrumentsCache order_for position =
     (if dp_quantity position = 0 then ([], Inr Null)
      else
        (case ltp_api env (dp_exchange position) (dp_securityId position) of
           Inl e \<Rightarrow> ([GetLTP (dp_exchange position) (dp_securityId position)], Inl e)
         | Inr ltp \<Rightarrow>
             (case dhan_placeOrder env instrumentsCache (order_for position ltp) of
                (t, Inl e) \<Rightarrow>
                  (GetLTP (dp_exchange position) (dp_securityId position) # t, Inl e)
              | (t, Inr result) \<Rightarrow>
                  (GetLTP (dp_exchange position) (dp_securityId position) # t,
                   Inr (Val result)))))"

definition dhan_exit_priced ::
  "(dhan_request, dhan_position) broker \<Rightarrow> dhan_instrument list option \<Rightarrow>
     (dhan_position \<Rightarrow> rat \<Rightarrow> order_params) \<Rightarrow>
     dhan_request call list \<times> (error + order_result nullable aggregate)" where
  "dhan_exit_priced env instrumentsCache order_for =
     (case dhan_listPositions env of
        (t, Inl e) \<Rightarrow> (t, Inl e)
      | (t, Inr positions) \<Rightarrow>
          (case run_all (filter Boolean_promise
                  (map (dhan_priced_callback env instrumentsCache order_for) positions)) of
             (t', Inl e) \<Rightarrow> (t @ t', Inl e)
           | (t', Inr results) \<Rightarrow> (t @ t', Inr (aggregate_of results))))"

definition dhan_exitAllPositionsLimit ::
  "(dhan_request, dhan_position) broker \<Rightarrow> dhan_instrument list option \<Rightarrow> rat option \<Rightarrow>
     dhan_request call list \<times> (error + order_result nullable aggregate)" where
  "dhan_exitAllPositionsLimit env instrumentsCache priceOffset =
     dhan_exit_priced env instrumentsCache (dhan_limit_params priceOffset)"

definition zerodha_limitPrice :: "string \<Rightarrow> rat \<Rightarrow> rat \<Rightarrow> rat" where
  "zerodha_limitPrice transactionType ltp priceOffset =
     round2 (if transactionType = ''SELL'' then js_mul ltp (js_sub 1 (js_div priceOffset 100))
             else js_mul ltp (js_add 1 (js_div priceOffset 100)))"

definition zerodha_limit_params ::
  "rat option \<Rightarrow> zerodha_position \<Rightarrow> rat \<Rightarrow> order_params" where
  "zerodha_limit_params priceOffset position ltp =
     (let transactionType = (if zp_quantity position > 0 then ''SELL'' else ''BUY'') in
      \<lparr>p_symbolName = Some (zp_tradingsymbol position),
       p_securityId = JUndefined,
       p_exchange = Some (zp_exchange position),
       p_transactionType = transactionType,
       p_orderType = ''LIMIT'',
       p_quantity = \<bar>zp_quantity position\<bar>,
       p_price = Some (zerodha_limitPrice transactionType ltp (num_or priceOffset 0)),
       p_triggerPrice = None,
       p_validity = None,
       p_variety = None,
       p_product = zp_product position\<rparr>)"

definition zerodha_limit_callback ::
  "(zerodha_request, zerodha_position) broker \<Rightarrow> zerodha_instrument list option \<Rightarrow>
     rat option \<Rightarrow> zerodha_position \<Rightarrow>
     zerodha_request call list \<times> (error + order_result nullable)" where
  "zerodha_limit_callback env instrumentsCache priceOffset position =
     (if zp_quantity position = 0 then ([], Inr Null)
      else
        (case ltp_api env (zp_exchange position) (JStr (zp_tradingsymbol position)) of
           Inl e \<Rightarrow> ([GetLTP (zp_exchange position) (JStr (zp_tradingsymbol position))], Inl e)
         | Inr ltp \<Rightarrow>
             (case zerodha_placeOrder env instrumentsCache
                     (zerodha_limit_params priceOffset position ltp) of
                (t, Inl e) \<Rightarrow>
                  (GetLTP (zp_exchange position) (JStr (zp_tradingsymbol position)) # t, Inl e)
              | (t, Inr result) \<Rightarrow>
                  (GetLTP (zp_exchange position) (JStr (zp_tradingsymbol position)) # t,
                   Inr (Val result)))))"

definition zerodha_exitAllPositionsLimit ::
  "(zerodha_request, zerodha_position) broker \<Rightarrow> zerodha_instrument list option \<Rightarrow>
     rat option \<Rightarrow> zerodha_request call list \<times> (error + order_result nullable aggregate)" where
  "zerodha_exitAllPositionsLimit env instrumentsCache priceOffset =
     (case zerodha_listPositions env of
        (t, Inl e) \<Rightarrow> (t, Inl e)
      | (t, Inr positions) \<Rightarrow>
          (case run_all (filter Boolean_promise
                  (map (zerodha_limit_callback env instrumentsCache priceOffset) positions)) of
             (t', Inl e) \<Rightarrow> (t @ t', Inl e)
           | (t', Inr results) \<Rightarrow> (t @ t', Inr (aggregate_of results))))"

subsection \<open>Stop-loss exit (Dhan)\<close>

text \<open>
  \<^verbatim>\<open>exitAllPositionsAddStopLoss\<close> has the shape of the limit exit: the trigger price is
  below the last traded price for a SELL and above it for a BUY, and \<^verbatim>\<open>placeOrder\<close> is
  called with order type \<^verbatim>\<open>"SLM"\<close>.
\<close>

definition dhan_triggerPrice :: "string \<Rightarrow> rat \<Rightarrow> rat \<Rightarrow> rat" where
  "dhan_triggerPrice transactionType ltp slPercentage =
     round2 (if transactionType = ''SELL'' then js_mul ltp (js_sub 1 (js_div slPercentage 100))
             else js_mul ltp (js_add 1 (js_div slPercentage 100)))"

definition dhan_stoploss_params :: "rat option \<Rightarrow> dhan_position \<Rightarrow> rat \<Rightarrow> order_params" where
  "dhan_stoploss_params slPercentage position ltp =
     (let transactionType = (if dp_quantity position > 0 then ''SELL'' else ''BUY'') in
      \<lparr>p_symbolName = None,
       p_securityId = dp_securityId position,
       p_exchange = Some (dp_exchange position),
       p_transactionType = transactionType,
       p_orderType = ''SLM'',
       p_quantity = \<bar>dp_quantity position\<bar>,
       p_price = None,
       p_triggerPrice = Some (dhan_triggerPrice transactionType ltp (num_or slPercentage 1)),
       p_validity = None,
       p_variety = None,
       p_product = dp_product position\<rparr>)"

definition dhan_exitAllPositionsAddStopLoss ::
  "(dhan_request, dhan_position) broker \<Rightarrow> dhan_instrument list option \<Rightarrow> rat option \<Rightarrow>
     dhan_request call list \<times> (error + order_result nullable aggregate)" where
  "dhan_exitAllPositionsAddStopLoss env instrumentsCache slPercentage =
     dhan_exit_priced env instrumentsCache (dhan_stoploss_params slPercentage)"

section \<open>Loading the instrument catalog\<close>

text \<open>
  \<^verbatim>\<open>_loadInstrumentsCache\<close> reads and writes two things: the field
  \<^verbatim>\<open>this.instrumentsCache\<close> and the persisted file. The file, when it exists, has an age
  (\<^verbatim>\<open>Date.now() - stats.mtime.getTime()\<close>, in milliseconds) and a content that decodes
  to a catalog or does not (\<open>None\<close>: \<^verbatim>\<open>JSON.parse\<close> or \<^verbatim>\<open>gunzipSync\<close> throws).
\<close>

record 'i cache_file =
  cf_age :: int
  cf_content :: "'i list option"

record 'i store =
  st_instrumentsCache :: "'i list option"
  st_file :: "'i cache_file option"

text \<open>
  The surroundings of one load: whether the cache directory exists or can be created,
  whether the file can be written, and what the broker answers to the download (its
  shape differs per broker). A failed write is taken to leave the file as it was.
\<close>

record 'f load_env =
  le_mkdir_ok :: bool
  le_write_ok :: bool
  le_fetch :: 'f

definition shouldDownload :: "'i store \<Rightarrow> bool" where
  "shouldDownload st =
     (case st_file st of
        None \<Rightarrow> True
      | Some f \<Rightarrow> cf_age f > 24 * 60 * 60 * 1000)"

text \<open>
  Reading the file into \<^verbatim>\<open>this.instrumentsCache\<close>; a throw ends in the outer
  \<^verbatim>\<open>catch\<close>, which only logs, so the state stays as it is.
\<close>

definition load_from_file :: "'i store \<Rightarrow> 'i store" where
  "load_from_file st =
     (case st_file st of
        None \<Rightarrow> st
      | Some f \<Rightarrow>
          (case cf_content f of
             None \<Rightarrow> st
           | Some instruments \<Rightarrow> st\<lparr>st_instrumentsCache := Some instruments\<rparr>))"

text \<open>
  Dhan downloads five segments one after the other (the first failure ends the
  \<^verbatim>\<open>try\<close> block), concatenates them, writes the file and sets the field. The inner
  \<^verbatim>\<open>catch\<close> loads the existing file, if there is one.
\<close>

definition dhan_segments :: "string list" where
  "dhan_segments =
     [''/instruments/nse-equity'', ''/instruments/bse-equity'', ''/instruments/nfo'',
      ''/instruments/cds'', ''/instruments/mcx'']"

definition dhan_download :: "(string \<Rightarrow> error + 'i list) \<Rightarrow> error + 'i list" where
  "dhan_download get =
     (case promise_all (map get dhan_segments) of
        Inl e \<Rightarrow> Inl e
      | Inr parts \<Rightarrow> Inr (concat parts))"

definition dhan_loadInstrumentsCache ::
  "(string \<Rightarrow> error + 'i list) load_env \<Rightarrow> 'i store \<Rightarrow> 'i store" where
  "dhan_loadInstrumentsCache env st =
     (if shouldDownload st then
        (if \<not> le_mkdir_ok env then st
         else
           (case dhan_download (le_fetch env) of
              Inr allInstruments \<Rightarrow>
                (if le_write_ok env then
                   \<lparr>st_instrumentsCache = Some allInstruments,
                    st_file = Some \<lparr>cf_age = 0, cf_content = Some allInstruments\<rparr>\<rparr>
                 else load_from_file st)
            | Inl e \<Rightarrow> load_from_file st))
      else load_from_file st)"

text \<open>
  Zerodha has no inner \<^verbatim>\<open>try\<close>: a failed download or write goes to the outer
  \<^verbatim>\<open>catch\<close>.
\<close>

definition zerodha_loadInstrumentsCache ::
  "(error + 'i list) load_env \<Rightarrow> 'i store \<Rightarrow> 'i store" where
  "zerodha_loadInstrumentsCache env st =
     (if shouldDownload st then
        (if \<not> le_mkdir_ok env then st
         else
           (case le_fetch env of
              Inl e \<Rightarrow> st
            | Inr instruments \<Rightarrow>
                (if le_write_ok env then
                   \<lparr>st_instrumentsCache = Some instruments,
                    st_file = Some \<lparr>cf_age = 0, cf_content = Some instruments\<rparr>\<rparr>
                 else st)))
      else load_from_file st)"

text \<open>
  Upstox downloads the compressed bundle into the file and then, downloaded or not,
  loads the file. A failed download or write goes to the outer \<^verbatim>\<open>catch\<close> before the
  file is read. The download's body is the new file content.
\<close>

definition upstox_loadInstrumentsCache ::
  "(error + 'i list option) load_env \<Rightarrow> 'i store \<Rightarrow> 'i store" where
  "upstox_loadInstrumentsCache env st =
     (if shouldDownload st then
        (if \<not> le_mkdir_ok env then st
         else
           (case le_fetch env of
              Inl e \<Rightarrow> st
            | Inr body \<Rightarrow>
                (if le_write_ok env then
                   load_from_file (st\<lparr>st_file := Some \<lparr>cf_age = 0, cf_content = body\<rparr>\<rparr>)
                 else st)))
      else load_from_file st)"

section \<open>Example scenarios\<close>

text \<open>Concrete inputs at which the operations are evaluated further below.\<close>

definition example_params :: order_params where
  "example_params =
     \<lparr>p_symbolName = Some ''TCS'', p_securityId = JStr ''11536'', p_exchange = Some ''NSE'',
      p_transactionType = ''BUY'', p_orderType = ''SL'', p_quantity = 1,
      p_price = Some 3500, p_triggerPrice = Some 3490, p_validity = None, p_variety = None,
      p_product = None\<rparr>"

definition example_upstox_catalog :: "upstox_instrument list" where
  "example_upstox_catalog =
     [\<lparr>ui_tradingsymbol = ''TCS'', ui_instrument_token = JStr ''NSE_EQ-11536'',
       ui_instrument_key = JStr ''NSE_EQ-11536'', ui_exchange = ''NSE''\<rparr>]"

definition example_dhan_catalog :: "dhan_instrument list" where
  "example_dhan_catalog =
     [\<lparr>di_tradingSymbol = ''RELIANCE'', di_securityId = JStr ''2885'', di_exchange = ''NSE'',
       di_exchangeToken = JNum 2885\<rparr>,
      \<lparr>di_tradingSymbol = ''RELIANCE'', di_securityId = JStr ''500325'', di_exchange = ''BSE'',
       di_exchangeToken = JNum 500325\<rparr>,
      \<lparr>di_tradingSymbol = ''Bankex'', di_securityId = JStr ''69'', di_exchange = ''BSE'',
       di_exchangeToken = JNum 69\<rparr>]"

definition example_zerodha_catalog :: "zerodha_instrument list" where
  "example_zerodha_catalog =
     [\<lparr>zi_tradingsymbol = ''Nifty50'', zi_instrument_token = JNum 256265,
       zi_exchange = ''NSE''\<rparr>]"

definition example_orders :: "order list" where
  "example_orders =
     [\<lparr>o_orderId = JStr ''A1'', o_status = ''OPEN''\<rparr>,
      \<lparr>o_orderId = JStr ''A2'', o_status = ''Trigger Pending''\<rparr>,
      \<lparr>o_orderId = JStr ''A3'', o_status = ''TRADED''\<rparr>]"

definition example_dhan_positions :: "dhan_position list" where
  "example_dhan_positions =
     [\<lparr>dp_securityId = JStr ''1333'', dp_exchange = ''NSE'', dp_quantity = 0,
       dp_product = Some ''INTRADAY''\<rparr>,
      \<lparr>dp_securityId = JStr ''11536'', dp_exchange = ''NSE'', dp_quantity = 10,
       dp_product = Some ''INTRADAY''\<rparr>]"

text \<open>A broker that accepts every request and quotes 100 for every instrument.\<close>

definition example_dhan_broker :: "(dhan_request, dhan_position) broker" where
  "example_dhan_broker =
     \<lparr>orders_api = Inr (Some example_orders),
      positions_api = Inr (Some example_dhan_positions),
      cancel_api = (\<lambda>orderId. Inr orderId),
      place_api = (\<lambda>request. Inr (JStr ''ORDER-1'')),
      ltp_api = (\<lambda>exchange securityId. Inr 100)\<rparr>"

text \<open>The same broker, except that it rejects the cancellation of order \<^verbatim>\<open>A1\<close>.\<close>

definition example_rejecting_broker :: "(dhan_request, dhan_position) broker" where
  "example_rejecting_broker =
     example_dhan_broker
       \<lparr>cancel_api :=
          (\<lambda>orderId. if orderId = JStr ''A1'' then Inl (BrokerError ''rejected'')
                      else Inr orderId)\<rparr>"

definition example_zerodha_positions :: "zerodha_position list" where
  "example_zerodha_positions =
     [\<lparr>zp_tradingsymbol = ''HDFCBANK'', zp_exchange = ''NSE'', zp_quantity = 0,
       zp_product = Some ''MIS''\<rparr>,
      \<lparr>zp_tradingsymbol = ''TCS'', zp_exchange = ''NSE'', zp_quantity = 10,
       zp_product = Some ''MIS''\<rparr>]"

definition example_zerodha_broker :: "(zerodha_request, zerodha_position) broker" where
  "example_zerodha_broker =
     \<lparr>orders_api = Inr (Some example_orders),
      positions_api = Inr (Some example_zerodha_positions),
      cancel_api = (\<lambda>orderId. Inr orderId),
      place_api = (\<lambda>request. Inr (JStr ''ORDER-1'')),
      ltp_api = (\<lambda>exchange securityId. Inr 100)\<rparr>"

text \<open>
  Portfolios with a closed position, a long position of 10 and a short position of 5
  held under another product, at a broker that accepts every request.
\<close>

definition example_mixed_dhan_positions :: "dhan_position list" where
  "example_mixed_dhan_positions =
     [\<lparr>dp_securityId = JStr ''1333'', dp_exchange = ''NSE'', dp_quantity = 0,
       dp_product = Some ''INTRADAY''\<rparr>,
      \<lparr>dp_securityId = JStr ''11536'', dp_exchange = ''NSE'', dp_quantity = 10,
       dp_product = Some ''INTRADAY''\<rparr>,
      \<lparr>dp_securityId = JStr ''2885'', dp_exchange = ''BSE'', dp_quantity = - 5,
       dp_product = Some ''CNC''\<rparr>]"

definition example_mixed_dhan_broker :: "(dhan_request, dhan_position) broker" where
  "example_mixed_dhan_broker =
     example_dhan_broker\<lparr>positions_api := Inr (Some example_mixed_dhan_positions)\<rparr>"

definition example_mixed_zerodha_positions :: "zerodha_position list" where
  "example_mixed_zerodha_positions =
     [\<lparr>zp_tradingsymbol = ''HDFCBANK'', zp_exchange = ''NSE'', zp_quantity = 0,
       zp_product = Some ''MIS''\<rparr>,
      \<lparr>zp_tradingsymbol = ''TCS'', zp_exchange = ''NSE'', zp_quantity = 10,
       zp_product = Some ''MIS''\<rparr>,
      \<lparr>zp_tradingsymbol = ''RELIANCE'', zp_exchange = ''BSE'', zp_quantity = - 5,
       zp_product = Some ''DELIVERY''\<rparr>]"

definition example_mixed_zerodha_broker :: "(zerodha_request, zerodha_position) broker" where
  "example_mixed_zerodha_broker =
     example_zerodha_broker\<lparr>positions_api := Inr (Some example_mixed_zerodha_positions)\<rparr>"

text \<open>
  A client whose catalog is not loaded yet, next to a persisted file that is two days
  old and holds a valid catalog, while the broker's download fails.
\<close>

definition example_stale_upstox :: "upstox_instrument store" where
  "example_stale_upstox =
     \<lparr>st_instrumentsCache = None,
      st_file = Some \<lparr>cf_age = 2 * 24 * 60 * 60 * 1000,
                      cf_content = Some example_upstox_catalog\<rparr>\<rparr>"

definition example_stale_zerodha :: "zerodha_instrument store" where
  "example_stale_zerodha =
     \<lparr>st_instrumentsCache = None,
      st_file = Some \<lparr>cf_age = 2 * 24 * 60 * 60 * 1000,
                      cf_content = Some example_zerodha_catalog\<rparr>\<rparr>"

definition example_stale_dhan :: "dhan_instrument store" where
  "example_stale_dhan =
     \<lparr>st_instrumentsCache = None,
      st_file = Some \<lparr>cf_age = 2 * 24 * 60 * 60 * 1000,
                      cf_content = Some example_dhan_catalog\<rparr>\<rparr>"

definition example_offline :: "(error + 'a) load_env" where
  "example_offline =
     \<lparr>le_mkdir_ok = True, le_write_ok = True, le_fetch = Inl (BrokerError ''timeout'')\<rparr>"

definition example_offline_dhan :: "(string \<Rightarrow> error + dhan_instrument list) load_env" where
  "example_offline_dhan =
     \<lparr>le_mkdir_ok = True, le_write_ok = True,
      le_fetch = (\<lambda>path. Inl (BrokerError ''timeout''))\<rparr>"

section \<open>Properties of the mapping tables\<close>

lemma js_get_own:
  "map_of obj key = Some v \<Longrightarrow> js_get obj key = JStr v"
  by (simp add: js_get_def)

lemma mapping_ordinary_key:
  assumes "key \<notin> set object_prototype_members"
  shows "js_or (js_get obj key) (JStr d) =
           JStr (case map_of obj key of Some v \<Rightarrow> if v = [] then d else v | None \<Rightarrow> d)"
  using assms by (simp add: js_get_def js_or_def split: option.splits)

text \<open>
  Away from the inherited member names the four mappings are total, single-valued and
  fall back to the default: the table value for a listed key, the default otherwise.
\<close>

lemma dhan_mapProduct_ordinary:
  "product \<notin> set object_prototype_members \<Longrightarrow>
     dhan_mapProduct product =
       JStr (case map_of dhan_productMap product of Some v \<Rightarrow> v | None \<Rightarrow> ''INTRADAY'')"
  by (simp add: dhan_mapProduct_def mapping_ordinary_key dhan_productMap_def)

lemma dhan_mapOrderType_ordinary:
  "orderType \<notin> set object_prototype_members \<Longrightarrow>
     dhan_mapOrderType orderType =
       JStr (case map_of dhan_orderTypeMap orderType of Some v \<Rightarrow> v | None \<Rightarrow> ''MARKET'')"
  by (simp add: dhan_mapOrderType_def mapping_ordinary_key dhan_orderTypeMap_def)

lemma zerodha_mapProduct_ordinary:
  "product \<notin> set object_prototype_members \<Longrightarrow>
     zerodha_mapProduct product =
       JStr (case map_of zerodha_productMap product of Some v \<Rightarrow> v | None \<Rightarrow> ''MIS'')"
  by (simp add: zerodha_mapProduct_def mapping_ordinary_key zerodha_productMap_def)

lemma zerodha_mapOrderType_ordinary:
  "orderType \<notin> set object_prototype_members \<Longrightarrow>
     zerodha_mapOrderType orderType =
       JStr (case map_of zerodha_orderTypeMap orderType of Some v \<Rightarrow> v | None \<Rightarrow> ''MARKET'')"
  by (simp add: zerodha_mapOrderType_def mapping_ordinary_key zerodha_orderTypeMap_def)

text \<open>
  C8. The mappings are claimed to send every unrecognised input string to the default
  (an intraday product, a MARKET order type). The table lookup \<^verbatim>\<open>productMap[product]\<close>
  also finds the members inherited from \<^verbatim>\<open>Object.prototype\<close>: for the input
  \<^verbatim>\<open>"constructor"\<close>, which no table lists, each mapping returns the inherited function
  object, which is truthy, so the \<^verbatim>\<open>|| default\<close> does not apply and the result is no
  broker-native value.
\<close>

theorem mapping_inherited_member_not_default:
  "dhan_mapProduct ''constructor'' = JInherited ''constructor''
   \<and> dhan_mapProduct ''constructor'' \<noteq> JStr ''INTRADAY''
   \<and> dhan_mapOrderType ''constructor'' = JInherited ''constructor''
   \<and> dhan_mapOrderType ''constructor'' \<noteq> JStr ''MARKET''
   \<and> zerodha_mapProduct ''constructor'' = JInherited ''constructor''
   \<and> zerodha_mapProduct ''constructor'' \<noteq> JStr ''MIS''
   \<and> zerodha_mapOrderType ''constructor'' = JInherited ''constructor''
   \<and> zerodha_mapOrderType ''constructor'' \<noteq> JStr ''MARKET''"
  by (simp add: dhan_mapProduct_def dhan_mapOrderType_def zerodha_mapProduct_def
      zerodha_mapOrderType_def js_or_def js_get_def object_prototype_members_def
      dhan_productMap_def dhan_orderTypeMap_def zerodha_productMap_def
      zerodha_orderTypeMap_def)

section \<open>Properties of catalog lookup\<close>

lemma upper_char_idem: "upper_char (upper_char c) = upper_char c"
proof (cases "97 \<le> (of_char c :: nat) \<and> (of_char c :: nat) \<le> 122")
  case True
  have "(of_char c :: nat) < 256" by (rule nat_of_char_less_256)
  then have "(of_char c :: nat) - 32 < 256" by arith
  then have shifted: "(of_char (char_of (of_char c - 32 :: nat)) :: nat) = of_char c - 32"
    by (simp add: of_char_of)
  from True have "\<not> 97 \<le> (of_char c :: nat) - 32" by arith
  with True shifted show ?thesis
    by (simp add: upper_char_def Let_def)
next
  case False
  then have "upper_char c = c" by (auto simp add: upper_char_def Let_def)
  then show ?thesis by simp
qed

lemma toUpperCase_idem: "toUpperCase (toUpperCase s) = toUpperCase s"
  by (simp add: toUpperCase_def upper_char_idem)

lemma find_first_match:
  assumes "P x" and "\<forall>y \<in> set pre. \<not> P y"
  shows "find P (pre @ x # post) = Some x"
  using assms by (induction pre) auto

lemma find_member_some:
  assumes "x \<in> set xs" and "P x"
  shows "\<exists>y. find P xs = Some y \<and> P y \<and> y \<in> set xs"
  using assms by (induction xs) auto

text \<open>
  An upper-cased symbol is one of the keys the Dhan lookup accepts for an instrument.
\<close>

lemma dhan_matches_upper_cased: "dhan_matches (JStr (toUpperCase (di_tradingSymbol i))) i"
  by (simp add: toUpperCase_idem)

lemma case_facts:
  "toUpperCase ''Bankex'' = ''BANKEX''"
  "toUpperCase ''BANKEX'' = ''BANKEX''"
  "toUpperCase ''RELIANCE'' = ''RELIANCE''"
  "toUpperCase ''Nifty50'' = ''NIFTY50''"
  by code_simp+

text \<open>
  C5 (as amended). Lookup returns the first catalog entry that matches the key, so an
  instrument is returned for one of its own keys whenever no earlier entry matches that
  key too. The keys of an instrument are, for Dhan and a string key: its symbol, any
  string equal to the symbol up to letter case, and its security id when that is a
  string; for Zerodha: its symbol (string key) or its instrument token (numeric key);
  for Upstox: its symbol, its instrument token or its instrument key. With one of its
  Dhan keys an instrument of the catalog always leads to some matching entry.
\<close>

theorem lookup_first_match:
  "(i \<in> set catalog \<and>
      (k = di_tradingSymbol i \<or> toUpperCase k = toUpperCase (di_tradingSymbol i)
       \<or> di_securityId i = JStr k) \<longrightarrow>
      (\<exists>j. dhan_getInstrumentDetails (Some catalog) (JStr k) = Inr (Some j)
           \<and> j \<in> set catalog \<and> dhan_matches (JStr k) j))
   \<and> (catalog = pre @ i # post \<and> (\<forall>j \<in> set pre. \<not> dhan_matches (JStr k) j) \<and>
      (k = di_tradingSymbol i \<or> toUpperCase k = toUpperCase (di_tradingSymbol i)
       \<or> di_securityId i = JStr k) \<longrightarrow>
      dhan_getInstrumentDetails (Some catalog) (JStr k) = Inr (Some i))
   \<and> (zcatalog = zpre @ zi # zpost \<and> (\<forall>j \<in> set zpre. \<not> zerodha_matches zkey j) \<and>
      (zkey = JStr (zi_tradingsymbol zi)
       \<or> (\<exists>n. zkey = JNum n \<and> zi_instrument_token zi = JNum n)) \<longrightarrow>
      zerodha_getInstrumentDetails (Some zcatalog) zkey = Inr (Some zi))
   \<and> (ucatalog = upre @ ui # upost \<and> (\<forall>j \<in> set upre. \<not> upstox_matches ukey j) \<and>
      (ukey = JStr (ui_tradingsymbol ui) \<or> ukey = ui_instrument_token ui
       \<or> ukey = ui_instrument_key ui) \<longrightarrow>
      upstox_getInstrumentDetails (Some ucatalog) ukey = Inr (Some ui))"
proof (intro conjI impI)
  assume a: "i \<in> set catalog \<and>
      (k = di_tradingSymbol i \<or> toUpperCase k = toUpperCase (di_tradingSymbol i)
       \<or> di_securityId i = JStr k)"
  then have "dhan_matches (JStr k) i" by auto
  with a obtain j where "find (dhan_matches (JStr k)) catalog = Some j"
      "dhan_matches (JStr k) j" "j \<in> set catalog"
    using find_member_some[of i catalog "dhan_matches (JStr k)"] by blast
  then show "\<exists>j. dhan_getInstrumentDetails (Some catalog) (JStr k) = Inr (Some j)
           \<and> j \<in> set catalog \<and> dhan_matches (JStr k) j"
    by (simp add: dhan_getInstrumentDetails_def)
next
  assume a: "catalog = pre @ i # post \<and> (\<forall>j \<in> set pre. \<not> dhan_matches (JStr k) j) \<and>
      (k = di_tradingSymbol i \<or> toUpperCase k = toUpperCase (di_tradingSymbol i)
       \<or> di_securityId i = JStr k)"
  then have "dhan_matches (JStr k) i" by auto
  with a show "dhan_getInstrumentDetails (Some catalog) (JStr k) = Inr (Some i)"
    by (simp add: dhan_getInstrumentDetails_def find_first_match)
next
  assume a: "zcatalog = zpre @ zi # zpost \<and> (\<forall>j \<in> set zpre. \<not> zerodha_matches zkey j) \<and>
      (zkey = JStr (zi_tradingsymbol zi)
       \<or> (\<exists>n. zkey = JNum n \<and> zi_instrument_token zi = JNum n))"
  then have "zerodha_matches zkey zi" by auto
  with a show "zerodha_getInstrumentDetails (Some zcatalog) zkey = Inr (Some zi)"
    by (simp add: zerodha_getInstrumentDetails_def find_first_match)
next
  assume a: "ucatalog = upre @ ui # upost \<and> (\<forall>j \<in> set upre. \<not> upstox_matches ukey j) \<and>
      (ukey = JStr (ui_tradingsymbol ui) \<or> ukey = ui_instrument_token ui
       \<or> ukey = ui_instrument_key ui)"
  then have "upstox_matches ukey ui" by (auto simp: upstox_matches_def)
  with a show "upstox_getInstrumentDetails (Some ucatalog) ukey = Inr (Some ui)"
    by (simp add: upstox_getInstrumentDetails_def find_first_match)
qed

text \<open>
  The theorem at the example catalogs: the Dhan entry \<^verbatim>\<open>Bankex\<close> is found by its
  upper-cased symbol, the Zerodha entry by its numeric token, the Upstox entry by its
  instrument key.
\<close>

theorem lookup_first_match_witness:
  "dhan_getInstrumentDetails (Some example_dhan_catalog) (JStr ''BANKEX'') =
     Inr (Some \<lparr>di_tradingSymbol = ''Bankex'', di_securityId = JStr ''69'',
                 di_exchange = ''BSE'', di_exchangeToken = JNum 69\<rparr>)
   \<and> zerodha_getInstrumentDetails (Some example_zerodha_catalog) (JNum 256265) =
     Inr (Some \<lparr>zi_tradingsymbol = ''Nifty50'', zi_instrument_token = JNum 256265,
                 zi_exchange = ''NSE''\<rparr>)
   \<and> upstox_getInstrumentDetails (Some example_upstox_catalog) (JStr ''NSE_EQ-11536'') =
     Inr (Some \<lparr>ui_tradingsymbol = ''TCS'', ui_instrument_token = JStr ''NSE_EQ-11536'',
                 ui_instrument_key = JStr ''NSE_EQ-11536'', ui_exchange = ''NSE''\<rparr>)"
  using lookup_first_match
    [where i = "\<lparr>di_tradingSymbol = ''Bankex'', di_securityId = JStr ''69'',
                  di_exchange = ''BSE'', di_exchangeToken = JNum 69\<rparr>"
       and catalog = example_dhan_catalog and k = "''BANKEX''"
       and pre = "[\<lparr>di_tradingSymbol = ''RELIANCE'', di_securityId = JStr ''2885'',
                     di_exchange = ''NSE'', di_exchangeToken = JNum 2885\<rparr>,
                   \<lparr>di_tradingSymbol = ''RELIANCE'', di_securityId = JStr ''500325'',
                     di_exchange = ''BSE'', di_exchangeToken = JNum 500325\<rparr>]"
       and post = "[]"
       and zi = "\<lparr>zi_tradingsymbol = ''Nifty50'', zi_instrument_token = JNum 256265,
                   zi_exchange = ''NSE''\<rparr>"
       and zcatalog = example_zerodha_catalog and zpre = "[]" and zpost = "[]"
       and zkey = "JNum 256265"
       and ui = "\<lparr>ui_tradingsymbol = ''TCS'', ui_instrument_token = JStr ''NSE_EQ-11536'',
                   ui_instrument_key = JStr ''NSE_EQ-11536'', ui_exchange = ''NSE''\<rparr>"
       and ucatalog = example_upstox_catalog and upre = "[]" and upost = "[]"
       and ukey = "JStr ''NSE_EQ-11536''"]
  by (simp add: example_dhan_catalog_def example_zerodha_catalog_def
      example_upstox_catalog_def case_facts)

text \<open>
  C5 as stated fails. In the example Dhan catalog the BSE entry \<^verbatim>\<open>RELIANCE\<close> is in the
  catalog, but a lookup by its exact symbol returns the NSE entry of the same symbol,
  which comes first. In the example Zerodha catalog the upper-cased variant of the
  symbol \<^verbatim>\<open>Nifty50\<close> finds nothing.
\<close>

theorem lookup_shadowed_counterexample:
  "\<lparr>di_tradingSymbol = ''RELIANCE'', di_securityId = JStr ''500325'', di_exchange = ''BSE'',
     di_exchangeToken = JNum 500325\<rparr> \<in> set example_dhan_catalog
   \<and> dhan_getInstrumentDetails (Some example_dhan_catalog) (JStr ''RELIANCE'') =
     Inr (Some \<lparr>di_tradingSymbol = ''RELIANCE'', di_securityId = JStr ''2885'',
                 di_exchange = ''NSE'', di_exchangeToken = JNum 2885\<rparr>)
   \<and> dhan_getInstrumentDetails (Some example_dhan_catalog) (JStr ''RELIANCE'') \<noteq>
     Inr (Some \<lparr>di_tradingSymbol = ''RELIANCE'', di_securityId = JStr ''500325'',
                 di_exchange = ''BSE'', di_exchangeToken = JNum 500325\<rparr>)
   \<and> \<lparr>zi_tradingsymbol = ''Nifty50'', zi_instrument_token = JNum 256265,
       zi_exchange = ''NSE''\<rparr> \<in> set example_zerodha_catalog
   \<and> toUpperCase ''Nifty50'' = ''NIFTY50''
   \<and> zerodha_getInstrumentDetails (Some example_zerodha_catalog) (JStr ''NIFTY50'') = Inr None"
  by (simp add: example_dhan_catalog_def example_zerodha_catalog_def
      dhan_getInstrumentDetails_def zerodha_getInstrumentDetails_def case_facts)

section \<open>Properties of the order request\<close>

lemma dhan_trigger_guard:
  "dhan_mapOrderType orderType \<in> set [JStr ''SL'', JStr ''SLM'']
     \<longleftrightarrow> orderType \<in> set [''SL'', ''SL-M'']"
  by (auto simp add: dhan_mapOrderType_def js_get_def js_or_def dhan_orderTypeMap_def
      split: if_splits)

lemma num_truthy_iff: "num_truthy p \<longleftrightarrow> (\<exists>r. p = Some r \<and> r \<noteq> 0)"
  by (cases p) auto

lemma dhan_build_price:
  "dr_price (dhan_build s e params) =
     (if p_orderType params \<in> set [''LIMIT'', ''SL''] \<and> num_truthy (p_price params)
      then p_price params else None)"
  by (simp add: dhan_build_def Let_def)

lemma dhan_build_trigger:
  "dr_triggerPrice (dhan_build s e params) =
     (if p_orderType params \<in> set [''SL'', ''SL-M''] \<and> num_truthy (p_triggerPrice params)
      then p_triggerPrice params else None)"
  using dhan_trigger_guard[of "p_orderType params"]
  by (simp add: dhan_build_def Let_def)

lemma dhan_orderRequest_built:
  "dhan_orderRequest cache params = Inr req \<Longrightarrow> \<exists>s e. req = dhan_build s e params"
  by (auto simp add: dhan_orderRequest_def split: if_splits sum.splits option.splits)

lemma zerodha_orderRequest_built:
  "zerodha_orderRequest cache params = Inr req \<Longrightarrow> \<exists>e s. req = zerodha_build e s params"
  by (auto simp add: zerodha_orderRequest_def split: if_splits sum.splits option.splits)

lemma upstox_orderRequest_built:
  "upstox_orderRequest cache params = Inr req \<Longrightarrow> \<exists>i. req = upstox_build i params"
  by (auto simp add: upstox_orderRequest_def split: if_splits sum.splits option.splits)

text \<open>
  C7 (as amended). A price or trigger price counts as supplied when it is given and is
  not 0. Whenever \<^verbatim>\<open>placeOrder\<close> gets as far as building its request: in every client
  the request has a price only if the order type is LIMIT or SL and a price was
  supplied, and it has a trigger price exactly when the order type is SL or SL-M and a
  trigger price was supplied. The Dhan and Zerodha requests have the price whenever the
  order type is LIMIT or SL and a price was supplied, the Upstox request whenever the
  order type is LIMIT and a price was supplied. A field that is present carries the
  supplied value.
\<close>

theorem placeOrder_price_and_trigger_fields:
  "(dhan_orderRequest dcache params = Inr dreq \<longrightarrow>
      ((dr_price dreq \<noteq> None) =
         (p_orderType params \<in> {''LIMIT'', ''SL''} \<and> (\<exists>r. p_price params = Some r \<and> r \<noteq> 0)))
      \<and> (dr_price dreq \<noteq> None \<longrightarrow> dr_price dreq = p_price params)
      \<and> ((dr_triggerPrice dreq \<noteq> None) =
         (p_orderType params \<in> {''SL'', ''SL-M''}
          \<and> (\<exists>r. p_triggerPrice params = Some r \<and> r \<noteq> 0)))
      \<and> (dr_triggerPrice dreq \<noteq> None \<longrightarrow> dr_triggerPrice dreq = p_triggerPrice params))
   \<and> (zerodha_orderRequest zcache params = Inr zreq \<longrightarrow>
      ((zr_price zreq \<noteq> None) =
         (p_orderType params \<in> {''LIMIT'', ''SL''} \<and> (\<exists>r. p_price params = Some r \<and> r \<noteq> 0)))
      \<and> (zr_price zreq \<noteq> None \<longrightarrow> zr_price zreq = p_price params)
      \<and> ((zr_trigger_price zreq \<noteq> None) =
         (p_orderType params \<in> {''SL'', ''SL-M''}
          \<and> (\<exists>r. p_triggerPrice params = Some r \<and> r \<noteq> 0)))
      \<and> (zr_trigger_price zreq \<noteq> None \<longrightarrow> zr_trigger_price zreq = p_triggerPrice params))
   \<and> (upstox_orderRequest ucache params = Inr ureq \<longrightarrow>
      (ur_price ureq \<noteq> None \<longrightarrow>
         p_orderType params \<in> {''LIMIT'', ''SL''} \<and> (\<exists>r. p_price params = Some r \<and> r \<noteq> 0))
      \<and> (p_orderType params = ''LIMIT'' \<and> (\<exists>r. p_price params = Some r \<and> r \<noteq> 0) \<longrightarrow>
         ur_price ureq \<noteq> None)
      \<and> (ur_price ureq \<noteq> None \<longrightarrow> ur_price ureq = p_price params)
      \<and> ((ur_trigger_price ureq \<noteq> None) =
         (p_orderType params \<in> {''SL'', ''SL-M''}
          \<and> (\<exists>r. p_triggerPrice params = Some r \<and> r \<noteq> 0)))
      \<and> (ur_trigger_price ureq \<noteq> None \<longrightarrow> ur_trigger_price ureq = p_triggerPrice params))"
proof (intro conjI impI)
  assume "dhan_orderRequest dcache params = Inr dreq"
  then obtain s e where req: "dreq = dhan_build s e params"
    using dhan_orderRequest_built by blast
  show "(dr_price dreq \<noteq> None) =
         (p_orderType params \<in> {''LIMIT'', ''SL''} \<and> (\<exists>r. p_price params = Some r \<and> r \<noteq> 0))"
    unfolding req dhan_build_price by (auto simp add: num_truthy_iff)
  show "(dr_triggerPrice dreq \<noteq> None) =
         (p_orderType params \<in> {''SL'', ''SL-M''}
          \<and> (\<exists>r. p_triggerPrice params = Some r \<and> r \<noteq> 0))"
    unfolding req dhan_build_trigger by (auto simp add: num_truthy_iff)
  { assume "dr_price dreq \<noteq> None"
    then show "dr_price dreq = p_price params"
      unfolding req dhan_build_price by (auto split: if_splits) }
  { assume "dr_triggerPrice dreq \<noteq> None"
    then show "dr_triggerPrice dreq = p_triggerPrice params"
      unfolding req dhan_build_trigger by (auto split: if_splits) }
next
  assume "zerodha_orderRequest zcache params = Inr zreq"
  then obtain e s where req: "zreq = zerodha_build e s params"
    using zerodha_orderRequest_built by blast
  show "(zr_price zreq \<noteq> None) =
         (p_orderType params \<in> {''LIMIT'', ''SL''} \<and> (\<exists>r. p_price params = Some r \<and> r \<noteq> 0))"
    unfolding req by (auto simp add: zerodha_build_def num_truthy_iff)
  show "(zr_trigger_price zreq \<noteq> None) =
         (p_orderType params \<in> {''SL'', ''SL-M''}
          \<and> (\<exists>r. p_triggerPrice params = Some r \<and> r \<noteq> 0))"
    unfolding req by (auto simp add: zerodha_build_def num_truthy_iff)
  { assume "zr_price zreq \<noteq> None"
    then show "zr_price zreq = p_price params"
      unfolding req by (auto simp add: zerodha_build_def split: if_splits) }
  { assume "zr_trigger_price zreq \<noteq> None"
    then show "zr_trigger_price zreq = p_triggerPrice params"
      unfolding req by (auto simp add: zerodha_build_def split: if_splits) }
next
  assume "upstox_orderRequest ucache params = Inr ureq"
  then obtain i where req: "ureq = upstox_build i params"
    using upstox_orderRequest_built by blast
  show "(ur_trigger_price ureq \<noteq> None) =
         (p_orderType params \<in> {''SL'', ''SL-M''}
          \<and> (\<exists>r. p_triggerPrice params = Some r \<and> r \<noteq> 0))"
    unfolding req by (auto simp add: upstox_build_def num_truthy_iff)
  { assume "ur_price ureq \<noteq> None"
    then show "p_orderType params \<in> {''LIMIT'', ''SL''}"
      unfolding req by (auto simp add: upstox_build_def split: if_splits) }
  { assume "ur_price ureq \<noteq> None"
    then show "\<exists>r. p_price params = Some r \<and> r \<noteq> 0"
      unfolding req by (auto simp add: upstox_build_def num_truthy_iff split: if_splits) }
  { assume "p_orderType params = ''LIMIT'' \<and> (\<exists>r. p_price params = Some r \<and> r \<noteq> 0)"
    then show "ur_price ureq \<noteq> None"
      unfolding req by (auto simp add: upstox_build_def) }
  { assume "ur_price ureq \<noteq> None"
    then show "ur_price ureq = p_price params"
      unfolding req by (auto simp add: upstox_build_def split: if_splits) }
  { assume "ur_trigger_price ureq \<noteq> None"
    then show "ur_trigger_price ureq = p_triggerPrice params"
      unfolding req by (auto simp add: upstox_build_def split: if_splits) }
qed

text \<open>
  The theorem at the example order, an SL order with price 3500 and trigger 3490, and
  at the same order as a LIMIT order: the Dhan and Zerodha SL requests carry price and
  trigger, the Upstox SL request carries the trigger, and the Upstox LIMIT request
  carries the price and no trigger.
\<close>

theorem placeOrder_price_and_trigger_fields_witness:
  "(\<exists>dreq. dhan_orderRequest None example_params = Inr dreq
        \<and> dr_price dreq = Some 3500 \<and> dr_triggerPrice dreq = Some 3490)
   \<and> (\<exists>zreq. zerodha_orderRequest None example_params = Inr zreq
        \<and> zr_price zreq = Some 3500 \<and> zr_trigger_price zreq = Some 3490)
   \<and> (\<exists>ureq. upstox_orderRequest (Some example_upstox_catalog) example_params = Inr ureq
        \<and> ur_trigger_price ureq = Some 3490)
   \<and> (\<exists>ureq. upstox_orderRequest (Some example_upstox_catalog)
               (example_params\<lparr>p_orderType := ''LIMIT''\<rparr>) = Inr ureq
        \<and> ur_price ureq = Some 3500 \<and> ur_trigger_price ureq = None)"
proof -
  let ?limit = "example_params\<lparr>p_orderType := ''LIMIT''\<rparr>"
  obtain dreq where d: "dhan_orderRequest None example_params = Inr dreq"
    by (simp add: dhan_orderRequest_def example_params_def)
  obtain zreq where z: "zerodha_orderRequest None example_params = Inr zreq"
    by (simp add: zerodha_orderRequest_def example_params_def)
  obtain ureq where u:
    "upstox_orderRequest (Some example_upstox_catalog) example_params = Inr ureq"
    by (simp add: upstox_orderRequest_def upstox_getInstrumentDetails_def
        upstox_matches_def example_upstox_catalog_def example_params_def)
  obtain lreq where l: "upstox_orderRequest (Some example_upstox_catalog) ?limit = Inr lreq"
    by (simp add: upstox_orderRequest_def upstox_getInstrumentDetails_def
        upstox_matches_def example_upstox_catalog_def example_params_def)
  have supplied: "p_orderType example_params = ''SL''" "p_price example_params = Some 3500"
    "p_triggerPrice example_params = Some 3490"
    by (simp_all add: example_params_def)
  have supplied_limit: "p_orderType ?limit = ''LIMIT''" "p_price ?limit = Some 3500"
    "p_triggerPrice ?limit = Some 3490"
    by (simp_all add: example_params_def)
  from placeOrder_price_and_trigger_fields
         [of None example_params dreq None zreq "Some example_upstox_catalog" ureq]
       d z u supplied
  have sl: "dr_price dreq = Some 3500 \<and> dr_triggerPrice dreq = Some 3490 \<and>
        zr_price zreq = Some 3500 \<and> zr_trigger_price zreq = Some 3490 \<and>
        ur_trigger_price ureq = Some 3490"
    by auto
  from placeOrder_price_and_trigger_fields
         [of None ?limit dreq None zreq "Some example_upstox_catalog" lreq]
       l supplied_limit
  have "ur_price lreq = Some 3500 \<and> ur_trigger_price lreq = None"
    by auto
  with sl d z u l show ?thesis by blast
qed

text \<open>
  C7 as stated fails where a price of 0 is supplied. The example order as a LIMIT order
  with price 0 goes out without a price field, in all three clients.
\<close>

theorem zero_price_limit_counterexample:
  "p_orderType (example_params\<lparr>p_orderType := ''LIMIT'', p_price := Some 0\<rparr>) = ''LIMIT''
   \<and> p_price (example_params\<lparr>p_orderType := ''LIMIT'', p_price := Some 0\<rparr>) = Some 0
   \<and> dhan_orderRequest None (example_params\<lparr>p_orderType := ''LIMIT'', p_price := Some 0\<rparr>) =
     Inr \<lparr>dr_securityId = JStr ''11536'', dr_exchange = JStr ''NSE'', dr_quantity = 1,
          dr_product = JStr ''INTRADAY'', dr_validity = ''DAY'', dr_orderType = JStr ''LIMIT'',
          dr_transactionType = ''BUY'', dr_disclosedQuantity = 0, dr_source = ''API'',
          dr_price = None, dr_triggerPrice = None\<rparr>
   \<and> zerodha_orderRequest None
       (example_params\<lparr>p_orderType := ''LIMIT'', p_price := Some 0\<rparr>) =
     Inr \<lparr>zr_exchange = ''NSE'', zr_tradingsymbol = ''TCS'', zr_transaction_type = ''BUY'',
          zr_quantity = 1, zr_product = JStr ''MIS'', zr_order_type = JStr ''LIMIT'',
          zr_validity = ''day'', zr_variety = ''regular'', zr_price = None,
          zr_trigger_price = None\<rparr>
   \<and> upstox_orderRequest (Some example_upstox_catalog)
       (example_params\<lparr>p_orderType := ''LIMIT'', p_price := Some 0\<rparr>) =
     Inr \<lparr>ur_instrument_token = JStr ''NSE_EQ-11536'', ur_exchange = ''NSE'',
          ur_transaction_type = ''BUY'', ur_order_type = ''LIMIT'', ur_quantity = 1,
          ur_product = ''INTRADAY'', ur_validity = ''DAY'', ur_price = None,
          ur_trigger_price = None\<rparr>"
  by code_simp

text \<open>
  The Upstox guard for the price names LIMIT only, where the Dhan and Zerodha guards
  name LIMIT and SL: the example SL order, with price 3500, goes out from the Upstox
  client without a price. The theorem above leaves this case open.
\<close>

lemma upstox_sl_order_has_no_price:
  "p_orderType example_params = ''SL'' \<and> p_price example_params = Some 3500
   \<and> upstox_orderRequest (Some example_upstox_catalog) example_params =
     Inr \<lparr>ur_instrument_token = JStr ''NSE_EQ-11536'', ur_exchange = ''NSE'',
          ur_transaction_type = ''BUY'', ur_order_type = ''SL'', ur_quantity = 1,
          ur_product = ''INTRADAY'', ur_validity = ''DAY'', ur_price = None,
          ur_trigger_price = Some 3490\<rparr>"
  by code_simp

text \<open>
  C10. A supplied price of 0 and a supplied trigger price of 0 are treated as absent:
  whatever the order type, no client's request then has the price (the trigger-price)
  field, because the guards test the value's truthiness.
\<close>

theorem zero_price_treated_as_absent:
  "(p_price params = Some 0 \<longrightarrow>
      (dhan_orderRequest dcache params = Inr dreq \<longrightarrow> dr_price dreq = None)
      \<and> (zerodha_orderRequest zcache params = Inr zreq \<longrightarrow> zr_price zreq = None)
      \<and> (upstox_orderRequest ucache params = Inr ureq \<longrightarrow> ur_price ureq = None))
   \<and> (p_triggerPrice params = Some 0 \<longrightarrow>
      (dhan_orderRequest dcache params = Inr dreq \<longrightarrow> dr_triggerPrice dreq = None)
      \<and> (zerodha_orderRequest zcache params = Inr zreq \<longrightarrow> zr_trigger_price zreq = None)
      \<and> (upstox_orderRequest ucache params = Inr ureq \<longrightarrow> ur_trigger_price ureq = None))"
proof (intro conjI impI)
  assume z: "p_price params = Some 0"
  { assume "dhan_orderRequest dcache params = Inr dreq"
    then obtain s e where "dreq = dhan_build s e params"
      using dhan_orderRequest_built by blast
    with z show "dr_price dreq = None" by (simp add: dhan_build_price) }
  { assume "zerodha_orderRequest zcache params = Inr zreq"
    then obtain e s where "zreq = zerodha_build e s params"
      using zerodha_orderRequest_built by blast
    with z show "zr_price zreq = None" by (simp add: zerodha_build_def) }
  { assume "upstox_orderRequest ucache params = Inr ureq"
    then obtain i where "ureq = upstox_build i params"
      using upstox_orderRequest_built by blast
    with z show "ur_price ureq = None" by (simp add: upstox_build_def) }
next
  assume z: "p_triggerPrice params = Some 0"
  { assume "dhan_orderRequest dcache params = Inr dreq"
    then obtain s e where "dreq = dhan_build s e params"
      using dhan_orderRequest_built by blast
    with z show "dr_triggerPrice dreq = None" by (simp add: dhan_build_trigger) }
  { assume "zerodha_orderRequest zcache params = Inr zreq"
    then obtain e s where "zreq = zerodha_build e s params"
      using zerodha_orderRequest_built by blast
    with z show "zr_trigger_price zreq = None" by (simp add: zerodha_build_def) }
  { assume "upstox_orderRequest ucache params = Inr ureq"
    then obtain i where "ureq = upstox_build i params"
      using upstox_orderRequest_built by blast
    with z show "ur_trigger_price ureq = None" by (simp add: upstox_build_def) }
qed

text \<open>
  The theorem at the example SL order with price and trigger price set to 0: all three
  clients build a request, and none has a price or a trigger price.
\<close>

theorem zero_price_treated_as_absent_witness:
  "(\<exists>dreq. dhan_orderRequest None
               (example_params\<lparr>p_price := Some 0, p_triggerPrice := Some 0\<rparr>) = Inr dreq
        \<and> dr_price dreq = None \<and> dr_triggerPrice dreq = None)
   \<and> (\<exists>zreq. zerodha_orderRequest None
               (example_params\<lparr>p_price := Some 0, p_triggerPrice := Some 0\<rparr>) = Inr zreq
        \<and> zr_price zreq = None \<and> zr_trigger_price zreq = None)
   \<and> (\<exists>ureq. upstox_orderRequest (Some example_upstox_catalog)
               (example_params\<lparr>p_price := Some 0, p_triggerPrice := Some 0\<rparr>) = Inr ureq
        \<and> ur_price ureq = None \<and> ur_trigger_price ureq = None)"
proof -
  let ?p = "example_params\<lparr>p_price := Some 0, p_triggerPrice := Some 0\<rparr>"
  obtain dreq where d: "dhan_orderRequest None ?p = Inr dreq"
    by (simp add: dhan_orderRequest_def example_params_def)
  obtain zreq where z: "zerodha_orderRequest None ?p = Inr zreq"
    by (simp add: zerodha_orderRequest_def example_params_def)
  obtain ureq where u: "upstox_orderRequest (Some example_upstox_catalog) ?p = Inr ureq"
    by (simp add: upstox_orderRequest_def upstox_getInstrumentDetails_def
        upstox_matches_def example_upstox_catalog_def example_params_def)
  have zero: "p_price ?p = Some 0" "p_triggerPrice ?p = Some 0" by simp_all
  from zero_price_treated_as_absent
         [of ?p None dreq None zreq "Some example_upstox_catalog" ureq] d z u zero
  have "dr_price dreq = None \<and> dr_triggerPrice dreq = None \<and>
        zr_price zreq = None \<and> zr_trigger_price zreq = None \<and>
        ur_price ureq = None \<and> ur_trigger_price ureq = None"
    by blast
  with d z u show ?thesis by blast
qed

section \<open>Properties of bulk operations\<close>

lemma promise_all_map_Inr: "promise_all (map Inr xs) = Inr xs"
  by (induction xs) auto

lemma promise_all_Inr_D: "promise_all ps = Inr xs \<Longrightarrow> ps = map Inr xs"
proof (induction ps arbitrary: xs)
  case Nil
  then show ?case by simp
next
  case (Cons p ps)
  then show ?case by (cases p) (auto split: sum.splits)
qed

lemma promise_all_Inl_mem: "promise_all ps = Inl e \<Longrightarrow> Inl e \<in> set ps"
proof (induction ps)
  case Nil
  then show ?case by simp
next
  case (Cons p ps)
  then show ?case by (cases p) (auto split: sum.splits)
qed

lemma promise_all_all_fulfilled:
  "(\<forall>p \<in> set ps. \<exists>x. p = Inr x) \<Longrightarrow> \<exists>xs. promise_all ps = Inr xs \<and> length xs = length ps"
proof (induction ps)
  case Nil
  then show ?case by simp
next
  case (Cons p ps)
  then show ?case by (cases p) (auto split: sum.splits)
qed

lemma promise_all_rejected:
  "Inl e \<in> set ps \<Longrightarrow> \<exists>e'. promise_all ps = Inl e'"
proof (induction ps)
  case Nil
  then show ?case by simp
next
  case (Cons p ps)
  then show ?case by (cases p) (auto split: sum.splits)
qed

lemma fst_run_all: "fst (run_all ps) = concat (map fst ps)"
  by (simp add: run_all_def)

lemma snd_run_all: "snd (run_all ps) = promise_all (map snd ps)"
  by (simp add: run_all_def)

lemma dhan_cancelAllOrders_trace:
  assumes "orders_api env = Inr (Some orders)"
  shows "fst (dhan_cancelAllOrders env) =
           ListOrders # map (\<lambda>order. CancelOrder (o_orderId order)) (openOrders orders)"
  using assms
  by (simp add: dhan_cancelAllOrders_def dhan_listOrders_def run_all_def dhan_cancelOrder_def
      comp_def split: sum.splits prod.splits)

lemma dhan_cancelAllOrders_result:
  assumes "orders_api env = Inr (Some orders)"
  shows "snd (dhan_cancelAllOrders env) =
           (case promise_all (map (\<lambda>order. snd (dhan_cancelOrder env (o_orderId order))) (openOrders orders)) of
              Inl e \<Rightarrow> Inl e | Inr results \<Rightarrow> Inr (aggregate_of results))"
  using assms
  by (simp add: dhan_cancelAllOrders_def dhan_listOrders_def run_all_def comp_def
      split: sum.splits prod.splits)

lemma bulk_all_or_nothing:
  fixes f :: "'x \<Rightarrow> error + 'y"
  shows "((\<forall>x \<in> set xs. \<exists>y. f x = Inr y) \<longrightarrow>
           (\<exists>ys. promise_all (map f xs) = Inr ys \<and> map f xs = map Inr ys))
       \<and> ((\<exists>x \<in> set xs. \<exists>e. f x = Inl e) \<longrightarrow>
           (\<exists>e. promise_all (map f xs) = Inl e \<and> (\<exists>x \<in> set xs. f x = Inl e)))"
proof (intro conjI impI)
  assume "\<forall>x \<in> set xs. \<exists>y. f x = Inr y"
  then have "\<forall>p \<in> set (map f xs). \<exists>y. p = Inr y" by auto
  then obtain ys where ys: "promise_all (map f xs) = Inr ys"
    using promise_all_all_fulfilled by blast
  then have "map f xs = map Inr ys" by (rule promise_all_Inr_D)
  with ys show "\<exists>ys. promise_all (map f xs) = Inr ys \<and> map f xs = map Inr ys" by blast
next
  assume "\<exists>x \<in> set xs. \<exists>e. f x = Inl e"
  then obtain x e where "x \<in> set xs" "f x = Inl e" by blast
  then have "Inl e \<in> set (map f xs)" by force
  then obtain e' where e': "promise_all (map f xs) = Inl e'"
    using promise_all_rejected by blast
  then have "Inl e' \<in> set (map f xs)" by (rule promise_all_Inl_mem)
  then have "\<exists>x \<in> set xs. f x = Inl e'" by auto
  with e' show "\<exists>e. promise_all (map f xs) = Inl e \<and> (\<exists>x \<in> set xs. f x = Inl e)" by blast
qed

lemma zerodha_cancelAllOrders_trace:
  assumes "orders_api env = Inr (Some orders)"
  shows "fst (zerodha_cancelAllOrders env) =
           ListOrders # map (\<lambda>order. CancelOrder (o_orderId order)) (openOrders orders)"
  using assms
  by (simp add: zerodha_cancelAllOrders_def zerodha_listOrders_def run_all_def
      zerodha_cancelOrder_def comp_def split: sum.splits prod.splits)

lemma zerodha_cancelAllOrders_result:
  assumes "orders_api env = Inr (Some orders)"
  shows "snd (zerodha_cancelAllOrders env) =
           (case promise_all (map (\<lambda>order. snd (zerodha_cancelOrder env (o_orderId order)))
                   (openOrders orders)) of
              Inl e \<Rightarrow> Inl e | Inr results \<Rightarrow> Inr (aggregate_of results))"
  using assms
  by (simp add: zerodha_cancelAllOrders_def zerodha_listOrders_def run_all_def comp_def
      split: sum.splits prod.splits)

lemma dhan_cancel_fulfilled_iff:
  "(\<exists>y. snd (dhan_cancelOrder env oid) = Inr y) \<longleftrightarrow> (\<exists>r. cancel_api env oid = Inr r)"
  by (auto simp add: dhan_cancelOrder_def split: sum.splits)

lemma dhan_cancel_rejected_iff:
  "snd (dhan_cancelOrder env oid) = Inl e \<longleftrightarrow> cancel_api env oid = Inl e"
  by (auto simp add: dhan_cancelOrder_def split: sum.splits)

lemma dhan_cancel_status:
  "snd (dhan_cancelOrder env oid) = Inr y \<Longrightarrow> r_status y = ''success''"
  by (auto simp add: dhan_cancelOrder_def split: sum.splits)

lemma zerodha_cancel_fulfilled_iff:
  "(\<exists>y. snd (zerodha_cancelOrder env oid) = Inr y) \<longleftrightarrow> (\<exists>r. cancel_api env oid = Inr r)"
  by (auto simp add: zerodha_cancelOrder_def split: sum.splits)

lemma zerodha_cancel_rejected_iff:
  "snd (zerodha_cancelOrder env oid) = Inl e \<longleftrightarrow> cancel_api env oid = Inl e"
  by (auto simp add: zerodha_cancelOrder_def split: sum.splits)

lemma zerodha_cancel_status:
  "snd (zerodha_cancelOrder env oid) = Inr y \<Longrightarrow> r_status y = ''success''"
  by (auto simp add: zerodha_cancelOrder_def split: sum.splits)

lemma all_success_results:
  assumes "map g xs = map Inr ys" and "\<And>x y. g x = Inr y \<Longrightarrow> r_status y = ''success''"
  shows "length ys = length xs \<and> (\<forall>y \<in> set ys. r_status y = ''success'')"
proof -
  have len: "length ys = length xs" using assms(1) by (metis length_map)
  have "\<forall>y \<in> set ys. r_status y = ''success''"
  proof
    fix y assume "y \<in> set ys"
    then have "Inr y \<in> set (map g xs)" using assms(1) by simp
    then obtain x where "g x = Inr y" by auto
    then show "r_status y = ''success''" by (rule assms(2))
  qed
  with len show ?thesis by simp
qed

text \<open>
  C1 (as amended). With the order list at hand, \<^verbatim>\<open>cancelAllOrders\<close> (Dhan and Zerodha)
  sends one cancel request per still-live order, whatever the outcomes. If every cancel
  succeeds it returns a report with one success result per open order, and the report's
  count is their number. If some cancel fails it returns no report: the whole call fails
  with the error of a failed cancel.
\<close>

theorem cancelAllOrders_all_or_nothing:
  assumes "orders_api env = Inr (Some orders)"
  shows
    "fst (dhan_cancelAllOrders env) =
       ListOrders # map (\<lambda>order. CancelOrder (o_orderId order)) (openOrders orders)
     \<and> fst (zerodha_cancelAllOrders env) =
       ListOrders # map (\<lambda>order. CancelOrder (o_orderId order)) (openOrders orders)
     \<and> ((\<forall>order \<in> set (openOrders orders). \<exists>r. cancel_api env (o_orderId order) = Inr r) \<longrightarrow>
          (\<exists>results. snd (dhan_cancelAllOrders env) =
               Inr \<lparr>agg_success = True, agg_count = length (openOrders orders),
                    agg_details = results\<rparr>
             \<and> length results = length (openOrders orders)
             \<and> (\<forall>r \<in> set results. r_status r = ''success''))
        \<and> (\<exists>results. snd (zerodha_cancelAllOrders env) =
               Inr \<lparr>agg_success = True, agg_count = length (openOrders orders),
                    agg_details = results\<rparr>
             \<and> length results = length (openOrders orders)
             \<and> (\<forall>r \<in> set results. r_status r = ''success'')))
     \<and> ((\<exists>order \<in> set (openOrders orders). \<exists>e. cancel_api env (o_orderId order) = Inl e) \<longrightarrow>
          (\<exists>e. snd (dhan_cancelAllOrders env) = Inl e
             \<and> (\<exists>order \<in> set (openOrders orders). cancel_api env (o_orderId order) = Inl e))
        \<and> (\<exists>e. snd (zerodha_cancelAllOrders env) = Inl e
             \<and> (\<exists>order \<in> set (openOrders orders). cancel_api env (o_orderId order) = Inl e)))"
proof -
  let ?os = "openOrders orders"
  let ?d = "\<lambda>order. snd (dhan_cancelOrder env (o_orderId order))"
  let ?z = "\<lambda>order. snd (zerodha_cancelOrder env (o_orderId order))"
  note dres = dhan_cancelAllOrders_result[OF assms]
  note zres = zerodha_cancelAllOrders_result[OF assms]
  have ok: "(\<exists>results. snd (dhan_cancelAllOrders env) =
               Inr \<lparr>agg_success = True, agg_count = length ?os, agg_details = results\<rparr>
             \<and> length results = length ?os \<and> (\<forall>r \<in> set results. r_status r = ''success''))
        \<and> (\<exists>results. snd (zerodha_cancelAllOrders env) =
               Inr \<lparr>agg_success = True, agg_count = length ?os, agg_details = results\<rparr>
             \<and> length results = length ?os \<and> (\<forall>r \<in> set results. r_status r = ''success''))"
    if all: "\<forall>order \<in> set ?os. \<exists>r. cancel_api env (o_orderId order) = Inr r"
  proof
    from all have "\<forall>order \<in> set ?os. \<exists>y. ?d order = Inr y"
      using dhan_cancel_fulfilled_iff by blast
    then obtain ys where ys: "promise_all (map ?d ?os) = Inr ys" "map ?d ?os = map Inr ys"
      using bulk_all_or_nothing[of ?os ?d] by blast
    have "length ys = length ?os \<and> (\<forall>y \<in> set ys. r_status y = ''success'')"
      using ys(2) dhan_cancel_status by (rule all_success_results)
    then show "\<exists>results. snd (dhan_cancelAllOrders env) =
               Inr \<lparr>agg_success = True, agg_count = length ?os, agg_details = results\<rparr>
             \<and> length results = length ?os \<and> (\<forall>r \<in> set results. r_status r = ''success'')"
      using dres ys(1) by (simp add: aggregate_of_def)
  next
    from all have "\<forall>order \<in> set ?os. \<exists>y. ?z order = Inr y"
      using zerodha_cancel_fulfilled_iff by blast
    then obtain ys where ys: "promise_all (map ?z ?os) = Inr ys" "map ?z ?os = map Inr ys"
      using bulk_all_or_nothing[of ?os ?z] by blast
    have "length ys = length ?os \<and> (\<forall>y \<in> set ys. r_status y = ''success'')"
      using ys(2) zerodha_cancel_status by (rule all_success_results)
    then show "\<exists>results. snd (zerodha_cancelAllOrders env) =
               Inr \<lparr>agg_success = True, agg_count = length ?os, agg_details = results\<rparr>
             \<and> length results = length ?os \<and> (\<forall>r \<in> set results. r_status r = ''success'')"
      using zres ys(1) by (simp add: aggregate_of_def)
  qed
  have bad: "(\<exists>e. snd (dhan_cancelAllOrders env) = Inl e
             \<and> (\<exists>order \<in> set ?os. cancel_api env (o_orderId order) = Inl e))
        \<and> (\<exists>e. snd (zerodha_cancelAllOrders env) = Inl e
             \<and> (\<exists>order \<in> set ?os. cancel_api env (o_orderId order) = Inl e))"
    if some: "\<exists>order \<in> set ?os. \<exists>e. cancel_api env (o_orderId order) = Inl e"
  proof
    from some have "\<exists>order \<in> set ?os. \<exists>e. ?d order = Inl e"
      using dhan_cancel_rejected_iff by blast
    then obtain e where e: "promise_all (map ?d ?os) = Inl e" "\<exists>order \<in> set ?os. ?d order = Inl e"
      using bulk_all_or_nothing[of ?os ?d] by blast
    from e(2) have "\<exists>order \<in> set ?os. cancel_api env (o_orderId order) = Inl e"
      using dhan_cancel_rejected_iff by blast
    then show "\<exists>e. snd (dhan_cancelAllOrders env) = Inl e
             \<and> (\<exists>order \<in> set ?os. cancel_api env (o_orderId order) = Inl e)"
      using dres e(1) by auto
  next
    from some have "\<exists>order \<in> set ?os. \<exists>e. ?z order = Inl e"
      using zerodha_cancel_rejected_iff by blast
    then obtain e where e: "promise_all (map ?z ?os) = Inl e" "\<exists>order \<in> set ?os. ?z order = Inl e"
      using bulk_all_or_nothing[of ?os ?z] by blast
    from e(2) have "\<exists>order \<in> set ?os. cancel_api env (o_orderId order) = Inl e"
      using zerodha_cancel_rejected_iff by blast
    then show "\<exists>e. snd (zerodha_cancelAllOrders env) = Inl e
             \<and> (\<exists>order \<in> set ?os. cancel_api env (o_orderId order) = Inl e)"
      using zres e(1) by auto
  qed
  show ?thesis
    using dhan_cancelAllOrders_trace[OF assms] zerodha_cancelAllOrders_trace[OF assms] ok bad
    by blast
qed

text \<open>
  The theorem at the example order book (two live orders, one traded): with the
  accepting broker both cancels are sent and the report has two results; with the broker
  that rejects \<^verbatim>\<open>A1\<close> both cancels are sent and the call fails.
\<close>

theorem cancelAllOrders_all_or_nothing_witness:
  "fst (dhan_cancelAllOrders example_dhan_broker) =
     [ListOrders, CancelOrder (JStr ''A1''), CancelOrder (JStr ''A2'')]
   \<and> (\<exists>results. snd (dhan_cancelAllOrders example_dhan_broker) =
         Inr \<lparr>agg_success = True, agg_count = 2, agg_details = results\<rparr>
       \<and> length results = 2)
   \<and> fst (zerodha_cancelAllOrders example_rejecting_broker) =
     [ListOrders, CancelOrder (JStr ''A1''), CancelOrder (JStr ''A2'')]
   \<and> (\<exists>e. snd (zerodha_cancelAllOrders example_rejecting_broker) = Inl e)"
proof -
  have live: "openOrders example_orders =
      [\<lparr>o_orderId = JStr ''A1'', o_status = ''OPEN''\<rparr>,
       \<lparr>o_orderId = JStr ''A2'', o_status = ''Trigger Pending''\<rparr>]"
    by code_simp
  have listed: "orders_api example_dhan_broker = Inr (Some example_orders)"
    "orders_api example_rejecting_broker = Inr (Some example_orders)"
    by (simp_all add: example_dhan_broker_def example_rejecting_broker_def)
  have accepted: "\<forall>order \<in> set (openOrders example_orders).
      \<exists>r. cancel_api example_dhan_broker (o_orderId order) = Inr r"
    by (simp add: live example_dhan_broker_def)
  have rejected: "\<exists>order \<in> set (openOrders example_orders).
      \<exists>e. cancel_api example_rejecting_broker (o_orderId order) = Inl e"
    by (simp add: live example_dhan_broker_def example_rejecting_broker_def)
  from cancelAllOrders_all_or_nothing[OF listed(1)] accepted
  have "fst (dhan_cancelAllOrders example_dhan_broker) =
          [ListOrders, CancelOrder (JStr ''A1''), CancelOrder (JStr ''A2'')]"
    and "\<exists>results. snd (dhan_cancelAllOrders example_dhan_broker) =
           Inr \<lparr>agg_success = True, agg_count = 2, agg_details = results\<rparr>
         \<and> length results = 2"
    by (auto simp add: live numeral_2_eq_2)
  moreover from cancelAllOrders_all_or_nothing[OF listed(2)] rejected
  have "fst (zerodha_cancelAllOrders example_rejecting_broker) =
          [ListOrders, CancelOrder (JStr ''A1''), CancelOrder (JStr ''A2'')]"
    and "\<exists>e. snd (zerodha_cancelAllOrders example_rejecting_broker) = Inl e"
    by (auto simp add: live)
  ultimately show ?thesis by blast
qed

text \<open>
  C1 as stated fails. With the broker that rejects the cancellation of \<^verbatim>\<open>A1\<close> and
  accepts that of \<^verbatim>\<open>A2\<close>, there are two open orders, but \<^verbatim>\<open>cancelAllOrders\<close> returns
  no report with two results: the call as a whole fails with the error of \<^verbatim>\<open>A1\<close>, in
  the Dhan client and in the Zerodha client.
\<close>

theorem cancelAllOrders_failure_counterexample:
  "length (openOrders example_orders) = 2
   \<and> cancel_api example_rejecting_broker (JStr ''A2'') = Inr (JStr ''A2'')
   \<and> snd (dhan_cancelAllOrders example_rejecting_broker) = Inl (BrokerError ''rejected'')
   \<and> snd (zerodha_cancelAllOrders example_rejecting_broker) = Inl (BrokerError ''rejected'')"
  by code_simp

section \<open>Properties of the market exit\<close>

lemma values_of_dhan_market:
  "values_of (filter Boolean_nullable (map (dhan_market_callback submit) positions)) =
     map submit (filter (\<lambda>position. dp_quantity position \<noteq> 0) positions)"
  by (induction positions) (simp_all add: dhan_market_callback_def)

lemma values_of_zerodha_market:
  "values_of (filter Boolean_nullable (map (zerodha_market_callback submit) positions)) =
     map submit (filter (\<lambda>position. zp_quantity position \<noteq> 0) positions)"
  by (induction positions) (simp_all add: zerodha_market_callback_def)

lemma dhan_market_request:
  assumes "truthy (dp_securityId position)"
  shows "dhan_placeOrder env cache (dhan_market_params position) =
           ([PlaceOrder (dhan_build (dp_securityId position) (JStr (dp_exchange position))
                           (dhan_market_params position))],
            case place_api env (dhan_build (dp_securityId position) (JStr (dp_exchange position))
                           (dhan_market_params position)) of
              Inl e \<Rightarrow> Inl e
            | Inr orderId \<Rightarrow> Inr \<lparr>r_orderId = orderId, r_status = ''success'',
                    r_message = ''Order placed successfully''\<rparr>)"
  using assms
  by (simp add: dhan_placeOrder_def dhan_orderRequest_def dhan_market_params_def)

lemma zerodha_market_request:
  assumes "zp_exchange position \<noteq> []" and "zp_tradingsymbol position \<noteq> []"
  shows "zerodha_placeOrder env cache (zerodha_market_params position) =
           ([PlaceOrder (zerodha_build (zp_exchange position) (zp_tradingsymbol position)
                           (zerodha_market_params position))],
            case place_api env (zerodha_build (zp_exchange position) (zp_tradingsymbol position)
                           (zerodha_market_params position)) of
              Inl e \<Rightarrow> Inl e
            | Inr orderId \<Rightarrow> Inr \<lparr>r_orderId = orderId, r_status = ''success'',
                    r_message = ''Order placed successfully''\<rparr>)"
  using assms
  by (simp add: zerodha_placeOrder_def zerodha_orderRequest_def zerodha_market_params_def)

lemma run_all_trace_map:
  "fst (run_all (map g xs)) = concat (map (\<lambda>x. fst (g x)) xs)"
  by (simp add: run_all_def comp_def)

lemma concat_map_filter:
  "concat (map (\<lambda>x. if P x then [h x] else []) xs) = map h (filter P xs)"
  by (induction xs) simp_all

lemma dhan_market_placeOrder_trace:
  "fst (dhan_placeOrder env cache (dhan_market_params position)) =
     (if truthy (dp_securityId position)
      then [PlaceOrder (dhan_build (dp_securityId position) (JStr (dp_exchange position))
                          (dhan_market_params position))]
      else [])"
proof (cases "truthy (dp_securityId position)")
  case True
  then show ?thesis by (simp add: dhan_market_request)
next
  case False
  have "dhan_getInstrumentDetails cache JUndefined = Inl CacheNotLoaded
        \<or> dhan_getInstrumentDetails cache JUndefined = Inr None"
    by (cases cache) (simp_all add: dhan_getInstrumentDetails_def find_None_iff)
  with False show ?thesis
    by (auto simp add: dhan_placeOrder_def dhan_orderRequest_def dhan_market_params_def)
qed

lemma dhan_market_build:
  "dhan_build securityId exchange (dhan_market_params position) =
     \<lparr>dr_securityId = securityId, dr_exchange = exchange,
      dr_quantity = \<bar>dp_quantity position\<bar>,
      dr_product = dhan_mapProduct (str_or (dp_product position) ''INTRADAY''),
      dr_validity = ''DAY'', dr_orderType = JStr ''MARKET'',
      dr_transactionType = (if dp_quantity position > 0 then ''SELL'' else ''BUY''),
      dr_disclosedQuantity = 0, dr_source = ''API'', dr_price = None,
      dr_triggerPrice = None\<rparr>"
  by (simp add: dhan_build_def dhan_market_params_def dhan_mapOrderType_def js_get_def
      js_or_def dhan_orderTypeMap_def Let_def)

lemma zerodha_market_build:
  "zerodha_build exchange tradingSymbol (zerodha_market_params position) =
     \<lparr>zr_exchange = exchange, zr_tradingsymbol = tradingSymbol,
      zr_transaction_type = (if zp_quantity position > 0 then ''SELL'' else ''BUY''),
      zr_quantity = \<bar>zp_quantity position\<bar>,
      zr_product = zerodha_mapProduct (str_or (zp_product position) ''INTRADAY''),
      zr_order_type = JStr ''MARKET'', zr_validity = ''day'', zr_variety = ''regular'',
      zr_price = None, zr_trigger_price = None\<rparr>"
  by (simp add: zerodha_build_def zerodha_market_params_def zerodha_mapOrderType_def
      js_get_def js_or_def zerodha_orderTypeMap_def)

text \<open>
  The exchange \<^verbatim>\<open>ZerodhaClient.placeOrder\<close> sends for a position: the position's own
  when the position has both exchange and symbol, otherwise that of the first catalog
  entry with the position's symbol, if the catalog is loaded and has one.
\<close>

lemma zerodha_market_placeOrder_trace:
  "fst (zerodha_placeOrder env cache (zerodha_market_params position)) =
     (case (if zp_exchange position \<noteq> [] \<and> zp_tradingsymbol position \<noteq> []
            then Some (zp_exchange position)
            else (case cache of
                    None \<Rightarrow> None
                  | Some instruments \<Rightarrow>
                      map_option zi_exchange
                        (find (\<lambda>i. zi_tradingsymbol i = zp_tradingsymbol position)
                           instruments))) of
        None \<Rightarrow> []
      | Some exchange \<Rightarrow>
          [PlaceOrder (zerodha_build exchange (zp_tradingsymbol position)
                         (zerodha_market_params position))])"
proof (cases "zp_exchange position \<noteq> [] \<and> zp_tradingsymbol position \<noteq> []")
  case True
  then show ?thesis by (simp add: zerodha_market_request)
next
  case False
  have matches: "zerodha_matches (JStr (zp_tradingsymbol position)) =
      (\<lambda>i. zi_tradingsymbol i = zp_tradingsymbol position)"
    by (rule ext) simp
  have lookup: "str_or (p_exchange (zerodha_market_params position)) [] = []
      \<or> str_or (p_symbolName (zerodha_market_params position)) [] = []"
    using False by (auto simp add: zerodha_market_params_def)
  have key: "str_val (p_symbolName (zerodha_market_params position)) =
      JStr (zp_tradingsymbol position)"
    by (simp add: zerodha_market_params_def)
  show ?thesis
  proof (cases cache)
    case None
    with False lookup show ?thesis
      by (simp add: zerodha_placeOrder_def zerodha_orderRequest_def key
          zerodha_getInstrumentDetails_def)
  next
    case (Some instruments)
    show ?thesis
    proof (cases "find (\<lambda>i. zi_tradingsymbol i = zp_tradingsymbol position) instruments")
      case None
      with False lookup Some show ?thesis
        by (simp add: zerodha_placeOrder_def zerodha_orderRequest_def key
            zerodha_getInstrumentDetails_def matches)
    next
      case (Some instrument)
      then have "zi_tradingsymbol instrument = zp_tradingsymbol position"
        by (auto simp add: find_Some_iff)
      with False lookup Some \<open>cache = Some instruments\<close> show ?thesis
        by (auto simp add: zerodha_placeOrder_def zerodha_orderRequest_def key
            zerodha_getInstrumentDetails_def matches)
    qed
  qed
qed

lemma dhan_exitAllPositions_trace_eq:
  "fst (dhan_exitAllPositions env cache) =
     (case dhan_listPositions env of
        (t, Inl e) \<Rightarrow> t
      | (t, Inr positions) \<Rightarrow>
          t @ fst (run_all (map (\<lambda>position. dhan_placeOrder env cache
                                   (dhan_market_params position))
                        (filter (\<lambda>position. dp_quantity position \<noteq> 0) positions))))"
  by (simp add: dhan_exitAllPositions_def values_of_dhan_market
      split: prod.splits sum.splits)

lemma zerodha_exitAllPositions_trace_eq:
  "fst (zerodha_exitAllPositions env cache) =
     (case zerodha_listPositions env of
        (t, Inl e) \<Rightarrow> t
      | (t, Inr positions) \<Rightarrow>
          t @ fst (run_all (map (\<lambda>position. zerodha_placeOrder env cache
                                   (zerodha_market_params position))
                        (filter (\<lambda>position. zp_quantity position \<noteq> 0) positions))))"
  by (simp add: zerodha_exitAllPositions_def values_of_zerodha_market
      split: prod.splits sum.splits)

text \<open>
  C4. \<^verbatim>\<open>exitAllPositions\<close> (Dhan and Zerodha) reads the positions and calls
  \<^verbatim>\<open>placeOrder\<close> once for each position with non-zero quantity, in order, and for no
  other: for a MARKET order on the position's instrument, SELL when the quantity is
  positive and BUY otherwise, for the absolute quantity, with the position's product;
  its outcome is that of these calls taken together.

  The Dhan client sends one request for each such position with a security id, and
  none for a position without one: a MARKET request for that security id and exchange,
  with that transaction type and quantity, no price and no trigger price, and the
  position's product as the client's product table translates it. The Zerodha client
  sends one request for each such position whose exchange can be determined (the
  position's own, or the catalog's when the position lacks exchange or symbol), with
  the position's symbol and the like fields.

  The product tables keep the product type: each client's table takes the product names
  of either vocabulary to the broker's name of the same product, and a position without
  a product is exited as INTRADAY (Zerodha: MIS).
\<close>

theorem exitAllPositions_market_orders:
  "dhan_exitAllPositions env cache =
     (case dhan_listPositions env of
        (t, Inl e) \<Rightarrow> (t, Inl e)
      | (t, Inr positions) \<Rightarrow>
          (case run_all
                  (map (\<lambda>position. dhan_placeOrder env cache
                          \<lparr>p_symbolName = None, p_securityId = dp_securityId position,
                           p_exchange = Some (dp_exchange position),
                           p_transactionType =
                             (if dp_quantity position > 0 then ''SELL'' else ''BUY''),
                           p_orderType = ''MARKET'', p_quantity = \<bar>dp_quantity position\<bar>,
                           p_price = None, p_triggerPrice = None, p_validity = None,
                           p_variety = None, p_product = dp_product position\<rparr>)
                     (filter (\<lambda>position. dp_quantity position \<noteq> 0) positions)) of
             (t', Inl e) \<Rightarrow> (t @ t', Inl e)
           | (t', Inr results) \<Rightarrow> (t @ t', Inr (aggregate_of results))))
   \<and> fst (dhan_exitAllPositions env cache) =
     (case dhan_listPositions env of
        (t, Inl e) \<Rightarrow> t
      | (t, Inr positions) \<Rightarrow>
          t @ map (\<lambda>position. PlaceOrder
                     \<lparr>dr_securityId = dp_securityId position,
                      dr_exchange = JStr (dp_exchange position),
                      dr_quantity = \<bar>dp_quantity position\<bar>,
                      dr_product = dhan_mapProduct (str_or (dp_product position) ''INTRADAY''),
                      dr_validity = ''DAY'', dr_orderType = JStr ''MARKET'',
                      dr_transactionType =
                        (if dp_quantity position > 0 then ''SELL'' else ''BUY''),
                      dr_disclosedQuantity = 0, dr_source = ''API'', dr_price = None,
                      dr_triggerPrice = None\<rparr>)
                (filter (\<lambda>position. dp_quantity position \<noteq> 0 \<and> truthy (dp_securityId position))
                   positions))
   \<and> zerodha_exitAllPositions zenv zcache =
     (case zerodha_listPositions zenv of
        (t, Inl e) \<Rightarrow> (t, Inl e)
      | (t, Inr positions) \<Rightarrow>
          (case run_all
                  (map (\<lambda>position. zerodha_placeOrder zenv zcache
                          \<lparr>p_symbolName = Some (zp_tradingsymbol position),
                           p_securityId = JUndefined,
                           p_exchange = Some (zp_exchange position),
                           p_transactionType =
                             (if zp_quantity position > 0 then ''SELL'' else ''BUY''),
                           p_orderType = ''MARKET'', p_quantity = \<bar>zp_quantity position\<bar>,
                           p_price = None, p_triggerPrice = None, p_validity = None,
                           p_variety = None, p_product = zp_product position\<rparr>)
                     (filter (\<lambda>position. zp_quantity position \<noteq> 0) positions)) of
             (t', Inl e) \<Rightarrow> (t @ t', Inl e)
           | (t', Inr results) \<Rightarrow> (t @ t', Inr (aggregate_of results))))
   \<and> fst (zerodha_exitAllPositions zenv zcache) =
     (case zerodha_listPositions zenv of
        (t, Inl e) \<Rightarrow> t
      | (t, Inr positions) \<Rightarrow>
          t @ concat (map (\<lambda>position.
                 case (if zp_exchange position \<noteq> [] \<and> zp_tradingsymbol position \<noteq> []
                       then Some (zp_exchange position)
                       else (case zcache of
                               None \<Rightarrow> None
                             | Some instruments \<Rightarrow>
                                 map_option zi_exchange
                                   (find (\<lambda>i. zi_tradingsymbol i = zp_tradingsymbol position)
                                      instruments))) of
                   None \<Rightarrow> []
                 | Some exchange \<Rightarrow>
                     [PlaceOrder
                        \<lparr>zr_exchange = exchange,
                         zr_tradingsymbol = zp_tradingsymbol position,
                         zr_transaction_type =
                           (if zp_quantity position > 0 then ''SELL'' else ''BUY''),
                         zr_quantity = \<bar>zp_quantity position\<bar>,
                         zr_product =
                           zerodha_mapProduct (str_or (zp_product position) ''INTRADAY''),
                         zr_order_type = JStr ''MARKET'', zr_validity = ''day'',
                         zr_variety = ''regular'', zr_price = None,
                         zr_trigger_price = None\<rparr>])
               (filter (\<lambda>position. zp_quantity position \<noteq> 0) positions)))
   \<and> map (\<lambda>product. dhan_mapProduct (str_or product ''INTRADAY''))
       [None, Some ''INTRADAY'', Some ''MIS'', Some ''DELIVERY'', Some ''CNC'',
        Some ''MARGIN'', Some ''NORMAL'', Some ''NRML''] =
     map JStr [''INTRADAY'', ''INTRADAY'', ''INTRADAY'', ''DELIVERY'', ''DELIVERY'',
        ''MARGIN'', ''NORMAL'', ''NORMAL'']
   \<and> map (\<lambda>product. zerodha_mapProduct (str_or product ''INTRADAY''))
       [None, Some ''INTRADAY'', Some ''MIS'', Some ''DELIVERY'', Some ''CNC'',
        Some ''NORMAL'', Some ''NRML''] =
     map JStr [''MIS'', ''MIS'', ''MIS'', ''CNC'', ''CNC'', ''NRML'', ''NRML'']"
proof (intro conjI)
  show "dhan_exitAllPositions env cache =
     (case dhan_listPositions env of
        (t, Inl e) \<Rightarrow> (t, Inl e)
      | (t, Inr positions) \<Rightarrow>
          (case run_all
                  (map (\<lambda>position. dhan_placeOrder env cache
                          \<lparr>p_symbolName = None, p_securityId = dp_securityId position,
                           p_exchange = Some (dp_exchange position),
                           p_transactionType =
                             (if dp_quantity position > 0 then ''SELL'' else ''BUY''),
                           p_orderType = ''MARKET'', p_quantity = \<bar>dp_quantity position\<bar>,
                           p_price = None, p_triggerPrice = None, p_validity = None,
                           p_variety = None, p_product = dp_product position\<rparr>)
                     (filter (\<lambda>position. dp_quantity position \<noteq> 0) positions)) of
             (t', Inl e) \<Rightarrow> (t @ t', Inl e)
           | (t', Inr results) \<Rightarrow> (t @ t', Inr (aggregate_of results))))"
    unfolding dhan_exitAllPositions_def values_of_dhan_market dhan_market_params_def ..
  show "zerodha_exitAllPositions zenv zcache =
     (case zerodha_listPositions zenv of
        (t, Inl e) \<Rightarrow> (t, Inl e)
      | (t, Inr positions) \<Rightarrow>
          (case run_all
                  (map (\<lambda>position. zerodha_placeOrder zenv zcache
                          \<lparr>p_symbolName = Some (zp_tradingsymbol position),
                           p_securityId = JUndefined,
                           p_exchange = Some (zp_exchange position),
                           p_transactionType =
                             (if zp_quantity position > 0 then ''SELL'' else ''BUY''),
                           p_orderType = ''MARKET'', p_quantity = \<bar>zp_quantity position\<bar>,
                           p_price = None, p_triggerPrice = None, p_validity = None,
                           p_variety = None, p_product = zp_product position\<rparr>)
                     (filter (\<lambda>position. zp_quantity position \<noteq> 0) positions)) of
             (t', Inl e) \<Rightarrow> (t @ t', Inl e)
           | (t', Inr results) \<Rightarrow> (t @ t', Inr (aggregate_of results))))"
    unfolding zerodha_exitAllPositions_def values_of_zerodha_market zerodha_market_params_def ..
  show "fst (dhan_exitAllPositions env cache) =
     (case dhan_listPositions env of
        (t, Inl e) \<Rightarrow> t
      | (t, Inr positions) \<Rightarrow>
          t @ map (\<lambda>position. PlaceOrder
                     \<lparr>dr_securityId = dp_securityId position,
                      dr_exchange = JStr (dp_exchange position),
                      dr_quantity = \<bar>dp_quantity position\<bar>,
                      dr_product = dhan_mapProduct (str_or (dp_product position) ''INTRADAY''),
                      dr_validity = ''DAY'', dr_orderType = JStr ''MARKET'',
                      dr_transactionType =
                        (if dp_quantity position > 0 then ''SELL'' else ''BUY''),
                      dr_disclosedQuantity = 0, dr_source = ''API'', dr_price = None,
                      dr_triggerPrice = None\<rparr>)
                (filter (\<lambda>position. dp_quantity position \<noteq> 0 \<and> truthy (dp_securityId position))
                   positions))"
  proof -
    have trace: "fst (run_all (map (\<lambda>position. dhan_placeOrder env cache
                        (dhan_market_params position)) positions')) =
        map (\<lambda>position. PlaceOrder (dhan_build (dp_securityId position)
               (JStr (dp_exchange position)) (dhan_market_params position)))
          (filter (\<lambda>position. truthy (dp_securityId position)) positions')" for positions'
      unfolding run_all_trace_map dhan_market_placeOrder_trace by (rule concat_map_filter)
    have both: "(\<lambda>x. truthy (dp_securityId x) \<and> dp_quantity x \<noteq> 0) =
        (\<lambda>position. dp_quantity position \<noteq> 0 \<and> truthy (dp_securityId position))"
      by (rule ext) blast
    show ?thesis
      unfolding dhan_exitAllPositions_trace_eq trace dhan_market_build filter_filter both ..
  qed
  show "fst (zerodha_exitAllPositions zenv zcache) =
     (case zerodha_listPositions zenv of
        (t, Inl e) \<Rightarrow> t
      | (t, Inr positions) \<Rightarrow>
          t @ concat (map (\<lambda>position.
                 case (if zp_exchange position \<noteq> [] \<and> zp_tradingsymbol position \<noteq> []
                       then Some (zp_exchange position)
                       else (case zcache of
                               None \<Rightarrow> None
                             | Some instruments \<Rightarrow>
                                 map_option zi_exchange
                                   (find (\<lambda>i. zi_tradingsymbol i = zp_tradingsymbol position)
                                      instruments))) of
                   None \<Rightarrow> []
                 | Some exchange \<Rightarrow>
                     [PlaceOrder
                        \<lparr>zr_exchange = exchange,
                         zr_tradingsymbol = zp_tradingsymbol position,
                         zr_transaction_type =
                           (if zp_quantity position > 0 then ''SELL'' else ''BUY''),
                         zr_quantity = \<bar>zp_quantity position\<bar>,
                         zr_product =
                           zerodha_mapProduct (str_or (zp_product position) ''INTRADAY''),
                         zr_order_type = JStr ''MARKET'', zr_validity = ''day'',
                         zr_variety = ''regular'', zr_price = None,
                         zr_trigger_price = None\<rparr>])
               (filter (\<lambda>position. zp_quantity position \<noteq> 0) positions)))"
  proof -
    have trace: "fst (run_all (map (\<lambda>position. zerodha_placeOrder zenv zcache
                        (zerodha_market_params position)) positions')) =
        concat (map (\<lambda>position.
                 case (if zp_exchange position \<noteq> [] \<and> zp_tradingsymbol position \<noteq> []
                       then Some (zp_exchange position)
                       else (case zcache of
                               None \<Rightarrow> None
                             | Some instruments \<Rightarrow>
                                 map_option zi_exchange
                                   (find (\<lambda>i. zi_tradingsymbol i = zp_tradingsymbol position)
                                      instruments))) of
                   None \<Rightarrow> []
                 | Some exchange \<Rightarrow>
                     [PlaceOrder (zerodha_build exchange (zp_tradingsymbol position)
                                    (zerodha_market_params position))]) positions')"
      for positions'
      unfolding run_all_trace_map zerodha_market_placeOrder_trace ..
    show ?thesis
      unfolding zerodha_exitAllPositions_trace_eq trace zerodha_market_build ..
  qed
  show "map (\<lambda>product. dhan_mapProduct (str_or product ''INTRADAY''))
       [None, Some ''INTRADAY'', Some ''MIS'', Some ''DELIVERY'', Some ''CNC'',
        Some ''MARGIN'', Some ''NORMAL'', Some ''NRML''] =
     map JStr [''INTRADAY'', ''INTRADAY'', ''INTRADAY'', ''DELIVERY'', ''DELIVERY'',
        ''MARGIN'', ''NORMAL'', ''NORMAL'']"
    by (simp add: dhan_mapProduct_def js_get_def js_or_def dhan_productMap_def)
  show "map (\<lambda>product. zerodha_mapProduct (str_or product ''INTRADAY''))
       [None, Some ''INTRADAY'', Some ''MIS'', Some ''DELIVERY'', Some ''CNC'',
        Some ''NORMAL'', Some ''NRML''] =
     map JStr [''MIS'', ''MIS'', ''MIS'', ''CNC'', ''CNC'', ''NRML'', ''NRML'']"
    by (simp add: zerodha_mapProduct_def js_get_def js_or_def zerodha_productMap_def)
qed

text \<open>
  The theorem at the example portfolios. One closed position and one long position of
  10: exactly one order is placed, a MARKET SELL for quantity 10 with the position's
  product, and the operation reports one exit. With a further short position of 5 held
  as CNC (Zerodha: as DELIVERY) a second order follows, a MARKET BUY for quantity 5
  with the broker's name of that product.
\<close>

theorem exitAllPositions_market_orders_witness:
  "dhan_exitAllPositions example_dhan_broker None =
     ([ListPositions,
       PlaceOrder \<lparr>dr_securityId = JStr ''11536'', dr_exchange = JStr ''NSE'',
         dr_quantity = 10, dr_product = JStr ''INTRADAY'', dr_validity = ''DAY'',
         dr_orderType = JStr ''MARKET'', dr_transactionType = ''SELL'',
         dr_disclosedQuantity = 0, dr_source = ''API'', dr_price = None,
         dr_triggerPrice = None\<rparr>],
      Inr \<lparr>agg_success = True, agg_count = 1,
           agg_details = [\<lparr>r_orderId = JStr ''ORDER-1'', r_status = ''success'',
                           r_message = ''Order placed successfully''\<rparr>]\<rparr>)
   \<and> fst (dhan_exitAllPositions example_mixed_dhan_broker None) =
     [ListPositions,
      PlaceOrder \<lparr>dr_securityId = JStr ''11536'', dr_exchange = JStr ''NSE'',
        dr_quantity = 10, dr_product = JStr ''INTRADAY'', dr_validity = ''DAY'',
        dr_orderType = JStr ''MARKET'', dr_transactionType = ''SELL'',
        dr_disclosedQuantity = 0, dr_source = ''API'', dr_price = None,
        dr_triggerPrice = None\<rparr>,
      PlaceOrder \<lparr>dr_securityId = JStr ''2885'', dr_exchange = JStr ''BSE'',
        dr_quantity = 5, dr_product = JStr ''DELIVERY'', dr_validity = ''DAY'',
        dr_orderType = JStr ''MARKET'', dr_transactionType = ''BUY'',
        dr_disclosedQuantity = 0, dr_source = ''API'', dr_price = None,
        dr_triggerPrice = None\<rparr>]
   \<and> zerodha_exitAllPositions example_zerodha_broker None =
     ([ListPositions,
       PlaceOrder \<lparr>zr_exchange = ''NSE'', zr_tradingsymbol = ''TCS'',
         zr_transaction_type = ''SELL'', zr_quantity = 10, zr_product = JStr ''MIS'',
         zr_order_type = JStr ''MARKET'', zr_validity = ''day'', zr_variety = ''regular'',
         zr_price = None, zr_trigger_price = None\<rparr>],
      Inr \<lparr>agg_success = True, agg_count = 1,
           agg_details = [\<lparr>r_orderId = JStr ''ORDER-1'', r_status = ''success'',
                           r_message = ''Order placed successfully''\<rparr>]\<rparr>)
   \<and> fst (zerodha_exitAllPositions example_mixed_zerodha_broker None) =
     [ListPositions,
      PlaceOrder \<lparr>zr_exchange = ''NSE'', zr_tradingsymbol = ''TCS'',
        zr_transaction_type = ''SELL'', zr_quantity = 10, zr_product = JStr ''MIS'',
        zr_order_type = JStr ''MARKET'', zr_validity = ''day'', zr_variety = ''regular'',
        zr_price = None, zr_trigger_price = None\<rparr>,
      PlaceOrder \<lparr>zr_exchange = ''BSE'', zr_tradingsymbol = ''RELIANCE'',
        zr_transaction_type = ''BUY'', zr_quantity = 5, zr_product = JStr ''CNC'',
        zr_order_type = JStr ''MARKET'', zr_validity = ''day'', zr_variety = ''regular'',
        zr_price = None, zr_trigger_price = None\<rparr>]"
proof -
  note at_example =
    exitAllPositions_market_orders [of example_dhan_broker None example_zerodha_broker None]
  note at_mixed =
    exitAllPositions_market_orders
      [of example_mixed_dhan_broker None example_mixed_zerodha_broker None]
  have d_positions: "dhan_listPositions example_dhan_broker =
      ([ListPositions], Inr example_dhan_positions)"
    by (simp add: dhan_listPositions_def example_dhan_broker_def)
  have z_positions: "zerodha_listPositions example_zerodha_broker =
      ([ListPositions], Inr example_zerodha_positions)"
    by (simp add: zerodha_listPositions_def example_zerodha_broker_def)
  have dm_positions: "dhan_listPositions example_mixed_dhan_broker =
      ([ListPositions], Inr example_mixed_dhan_positions)"
    by (simp add: dhan_listPositions_def example_mixed_dhan_broker_def example_dhan_broker_def)
  have zm_positions: "zerodha_listPositions example_mixed_zerodha_broker =
      ([ListPositions], Inr example_mixed_zerodha_positions)"
    by (simp add: zerodha_listPositions_def example_mixed_zerodha_broker_def
        example_zerodha_broker_def)
  have d_place: "place_api example_dhan_broker = (\<lambda>request. Inr (JStr ''ORDER-1''))"
    by (simp add: example_dhan_broker_def)
  have z_place: "place_api example_zerodha_broker = (\<lambda>request. Inr (JStr ''ORDER-1''))"
    by (simp add: example_zerodha_broker_def)
  have d_products: "dhan_mapProduct ''INTRADAY'' = JStr ''INTRADAY''"
    "dhan_mapProduct ''CNC'' = JStr ''DELIVERY''"
    using at_example by simp_all
  have z_products: "zerodha_mapProduct ''MIS'' = JStr ''MIS''"
    "zerodha_mapProduct ''DELIVERY'' = JStr ''CNC''"
    using at_example by simp_all
  have "dhan_exitAllPositions example_dhan_broker None =
     ([ListPositions,
       PlaceOrder \<lparr>dr_securityId = JStr ''11536'', dr_exchange = JStr ''NSE'',
         dr_quantity = 10, dr_product = JStr ''INTRADAY'', dr_validity = ''DAY'',
         dr_orderType = JStr ''MARKET'', dr_transactionType = ''SELL'',
         dr_disclosedQuantity = 0, dr_source = ''API'', dr_price = None,
         dr_triggerPrice = None\<rparr>],
      Inr \<lparr>agg_success = True, agg_count = 1,
           agg_details = [\<lparr>r_orderId = JStr ''ORDER-1'', r_status = ''success'',
                           r_message = ''Order placed successfully''\<rparr>]\<rparr>)"
    using at_example [THEN conjunct1]
    by (simp add: d_positions example_dhan_positions_def run_all_def aggregate_of_def
        dhan_placeOrder_def dhan_orderRequest_def dhan_build_def Let_def d_place d_products
        dhan_mapOrderType_def js_get_def js_or_def dhan_orderTypeMap_def)
  moreover have "fst (dhan_exitAllPositions example_mixed_dhan_broker None) =
     [ListPositions,
      PlaceOrder \<lparr>dr_securityId = JStr ''11536'', dr_exchange = JStr ''NSE'',
        dr_quantity = 10, dr_product = JStr ''INTRADAY'', dr_validity = ''DAY'',
        dr_orderType = JStr ''MARKET'', dr_transactionType = ''SELL'',
        dr_disclosedQuantity = 0, dr_source = ''API'', dr_price = None,
        dr_triggerPrice = None\<rparr>,
      PlaceOrder \<lparr>dr_securityId = JStr ''2885'', dr_exchange = JStr ''BSE'',
        dr_quantity = 5, dr_product = JStr ''DELIVERY'', dr_validity = ''DAY'',
        dr_orderType = JStr ''MARKET'', dr_transactionType = ''BUY'',
        dr_disclosedQuantity = 0, dr_source = ''API'', dr_price = None,
        dr_triggerPrice = None\<rparr>]"
    using at_mixed [THEN conjunct2, THEN conjunct1]
    by (simp add: dm_positions example_mixed_dhan_positions_def d_products)
  moreover have "zerodha_exitAllPositions example_zerodha_broker None =
     ([ListPositions,
       PlaceOrder \<lparr>zr_exchange = ''NSE'', zr_tradingsymbol = ''TCS'',
         zr_transaction_type = ''SELL'', zr_quantity = 10, zr_product = JStr ''MIS'',
         zr_order_type = JStr ''MARKET'', zr_validity = ''day'', zr_variety = ''regular'',
         zr_price = None, zr_trigger_price = None\<rparr>],
      Inr \<lparr>agg_success = True, agg_count = 1,
           agg_details = [\<lparr>r_orderId = JStr ''ORDER-1'', r_status = ''success'',
                           r_message = ''Order placed successfully''\<rparr>]\<rparr>)"
    using at_example [THEN conjunct2, THEN conjunct2, THEN conjunct1]
    by (simp add: z_positions example_zerodha_positions_def run_all_def aggregate_of_def
        zerodha_placeOrder_def zerodha_orderRequest_def zerodha_build_def z_place z_products
        zerodha_mapOrderType_def js_get_def js_or_def zerodha_orderTypeMap_def)
  moreover have "fst (zerodha_exitAllPositions example_mixed_zerodha_broker None) =
     [ListPositions,
      PlaceOrder \<lparr>zr_exchange = ''NSE'', zr_tradingsymbol = ''TCS'',
        zr_transaction_type = ''SELL'', zr_quantity = 10, zr_product = JStr ''MIS'',
        zr_order_type = JStr ''MARKET'', zr_validity = ''day'', zr_variety = ''regular'',
        zr_price = None, zr_trigger_price = None\<rparr>,
      PlaceOrder \<lparr>zr_exchange = ''BSE'', zr_tradingsymbol = ''RELIANCE'',
        zr_transaction_type = ''BUY'', zr_quantity = 5, zr_product = JStr ''CNC'',
        zr_order_type = JStr ''MARKET'', zr_validity = ''day'', zr_variety = ''regular'',
        zr_price = None, zr_trigger_price = None\<rparr>]"
    using at_mixed [THEN conjunct2, THEN conjunct2, THEN conjunct2, THEN conjunct1]
    by (simp add: zm_positions example_mixed_zerodha_positions_def z_products)
  ultimately show ?thesis by (intro conjI)
qed

section \<open>Properties of catalog loading\<close>

text \<open>
  The Dhan client falls back to the persisted file when a due download fails: the
  catalog of the file becomes the in-memory catalog.
\<close>

lemma dhan_load_falls_back:
  assumes "shouldDownload st" and "le_mkdir_ok env"
    and "dhan_download (le_fetch env) = Inl e"
    and "st_file st = Some f" and "cf_content f = Some instruments"
  shows "st_instrumentsCache (dhan_loadInstrumentsCache env st) = Some instruments"
  using assms by (simp add: dhan_loadInstrumentsCache_def load_from_file_def)

text \<open>
  The Zerodha and Upstox clients do not: when a due download fails, the load changes
  nothing, whatever the persisted file holds.
\<close>

lemma zerodha_load_no_fallback:
  assumes "shouldDownload st" and "le_fetch env = Inl e"
  shows "zerodha_loadInstrumentsCache env st = st"
  using assms by (simp add: zerodha_loadInstrumentsCache_def)

lemma upstox_load_no_fallback:
  assumes "shouldDownload st" and "le_fetch env = Inl e"
  shows "upstox_loadInstrumentsCache env st = st"
  using assms by (simp add: upstox_loadInstrumentsCache_def)

text \<open>
  A file younger than the threshold is loaded without a download, in all three clients.
\<close>

lemma fresh_file_is_loaded:
  assumes "\<not> shouldDownload st"
  shows "dhan_loadInstrumentsCache denv st = load_from_file st"
    and "zerodha_loadInstrumentsCache zenv st = load_from_file st"
    and "upstox_loadInstrumentsCache uenv st = load_from_file st"
  using assms
  by (simp_all add: dhan_loadInstrumentsCache_def zerodha_loadInstrumentsCache_def
      upstox_loadInstrumentsCache_def)

text \<open>
  C6. Every client is claimed to load the stale persisted file when the live download
  fails. In the example a client starts with no catalog, the persisted file is two days
  old and holds a valid catalog, and the download fails. The Dhan client ends with the
  file's catalog. The Upstox and the Zerodha client end with no catalog, and a lookup
  of an instrument that the file lists throws \<^verbatim>\<open>Instruments cache not loaded\<close>.
\<close>

theorem stale_file_not_loaded:
  "shouldDownload example_stale_upstox
   \<and> st_instrumentsCache (upstox_loadInstrumentsCache example_offline example_stale_upstox)
       = None
   \<and> upstox_getInstrumentDetails
        (st_instrumentsCache (upstox_loadInstrumentsCache example_offline example_stale_upstox))
        (JStr ''TCS'') = Inl CacheNotLoaded
   \<and> shouldDownload example_stale_zerodha
   \<and> st_instrumentsCache (zerodha_loadInstrumentsCache example_offline example_stale_zerodha)
       = None
   \<and> zerodha_getInstrumentDetails
        (st_instrumentsCache
           (zerodha_loadInstrumentsCache example_offline example_stale_zerodha))
        (JStr ''Nifty50'') = Inl CacheNotLoaded
   \<and> shouldDownload example_stale_dhan
   \<and> st_instrumentsCache (dhan_loadInstrumentsCache example_offline_dhan example_stale_dhan)
       = Some example_dhan_catalog"
  by code_simp

section \<open>Properties of double arithmetic\<close>

text \<open>
  \<open>exponent_of\<close> is the binary exponent: the unique \<open>e\<close> with
  \<^verbatim>\<open>2^e <= |x| < 2^(e+1)\<close>.
\<close>

lemma exponent_of_bounds:
  assumes "x \<noteq> 0"
  shows "2 powi (exponent_of x) \<le> \<bar>x\<bar> \<and> \<bar>x\<bar> < 2 powi (exponent_of x + 1)"
proof -
  obtain p q where pq: "quotient_of \<bar>x\<bar> = (p, q)" by (cases "quotient_of \<bar>x\<bar>")
  have qpos: "0 < q" using pq by (rule quotient_of_denom_pos)
  have ax: "\<bar>x\<bar> = of_int p / of_int q" using quotient_of_div[OF pq] .
  have "0 < \<bar>x\<bar>" using assms by simp
  with ax qpos have ppos: "0 < p" by (simp add: zero_less_divide_iff)
  define bp where "bp = floorlog 2 (nat p)"
  define bq where "bq = floorlog 2 (nat q)"
  define d where "d = int bp - int bq"
  have bp: "2 ^ (bp - 1) \<le> nat p" "nat p < 2 ^ bp"
    using floorlog_bounds[of "nat p" 2] ppos by (simp_all add: bp_def)
  have bq: "2 ^ (bq - 1) \<le> nat q" "nat q < 2 ^ bq"
    using floorlog_bounds[of "nat q" 2] qpos by (simp_all add: bq_def)
  have bp1: "1 \<le> bp" using bp(2) ppos by (cases bp) auto
  have bq1: "1 \<le> bq" using bq(2) qpos by (cases bq) auto
  have p_lo: "(2::rat) ^ (bp - 1) \<le> of_int p" and p_hi: "of_int p < (2::rat) ^ bp"
  proof -
    have "of_nat (2 ^ (bp - 1)) \<le> (of_nat (nat p) :: rat)" using bp(1) by (simp only: of_nat_le_iff)
    then show "(2::rat) ^ (bp - 1) \<le> of_int p" using ppos by simp
    have "(of_nat (nat p) :: rat) < of_nat (2 ^ bp)" using bp(2) by (simp only: of_nat_less_iff)
    then show "of_int p < (2::rat) ^ bp" using ppos by simp
  qed
  have q_lo: "(2::rat) ^ (bq - 1) \<le> of_int q" and q_hi: "of_int q < (2::rat) ^ bq"
  proof -
    have "of_nat (2 ^ (bq - 1)) \<le> (of_nat (nat q) :: rat)" using bq(1) by (simp only: of_nat_le_iff)
    then show "(2::rat) ^ (bq - 1) \<le> of_int q" using qpos by simp
    have "(of_nat (nat q) :: rat) < of_nat (2 ^ bq)" using bq(2) by (simp only: of_nat_less_iff)
    then show "of_int q < (2::rat) ^ bq" using qpos by simp
  qed
  have qr: "(0::rat) < of_int q" using qpos by simp
  have upper: "\<bar>x\<bar> < 2 powi (d + 1)"
  proof -
    have "of_int p < (2::rat) ^ bp" by (rule p_hi)
    also have "(2::rat) ^ bp = 2 powi (d + 1) * 2 ^ (bq - 1)"
    proof -
      have "(2::rat) powi (d + 1) * 2 powi (int (bq - 1)) = 2 powi (d + 1 + int (bq - 1))"
        by (simp add: power_int_add)
      also have "d + 1 + int (bq - 1) = int bp" using bq1 by (simp add: d_def)
      finally show ?thesis by simp
    qed
    also have "\<dots> \<le> 2 powi (d + 1) * of_int q"
      using q_lo by (simp add: mult_left_mono)
    finally have "(of_int p :: rat) < 2 powi (d + 1) * of_int q" .
    then show ?thesis using qr by (simp add: ax pos_divide_less_eq)
  qed
  have lower: "2 powi (d - 1) < \<bar>x\<bar>"
  proof -
    have "(2::rat) powi (d - 1) * of_int q < (2::rat) powi (d - 1) * 2 ^ bq"
      using q_hi by (simp add: mult_strict_left_mono)
    also have "(2::rat) powi (d - 1) * 2 ^ bq = 2 ^ (bp - 1)"
    proof -
      have "(2::rat) powi (d - 1) * 2 powi (int bq) = 2 powi (d - 1 + int bq)"
        by (simp add: power_int_add)
      also have "d - 1 + int bq = int (bp - 1)" using bp1 by (simp add: d_def)
      finally show ?thesis by simp
    qed
    also have "\<dots> \<le> of_int p" by (rule p_lo)
    finally have "(2::rat) powi (d - 1) * of_int q < (of_int p :: rat)" .
    then show ?thesis using qr by (simp add: ax pos_less_divide_eq)
  qed
  have e: "exponent_of x = (if 2 powi d \<le> \<bar>x\<bar> then d else d - 1)"
    by (simp add: exponent_of_def pq bp_def bq_def d_def Let_def)
  show ?thesis
  proof (cases "2 powi d \<le> \<bar>x\<bar>")
    case True
    with e upper show ?thesis by simp
  next
    case False
    with e lower show ?thesis by simp
  qed
qed

lemma exponent_unique:
  fixes a :: rat
  assumes "2 powi e \<le> a" "a < 2 powi (e + 1)" "2 powi e' \<le> a" "a < 2 powi (e' + 1)"
  shows "e = e'"
proof (rule ccontr)
  assume "e \<noteq> e'"
  then consider "e + 1 \<le> e'" | "e' + 1 \<le> e" by linarith
  then show False
  proof cases
    case 1
    then have "(2::rat) powi (e + 1) \<le> 2 powi e'" by (intro power_int_increasing) simp_all
    with assms show False by linarith
  next
    case 2
    then have "(2::rat) powi (e' + 1) \<le> 2 powi e" by (intro power_int_increasing) simp_all
    with assms show False by linarith
  qed
qed

lemma exponent_ofI:
  assumes "2 powi e \<le> \<bar>x\<bar>" and "\<bar>x\<bar> < 2 powi (e + 1)"
  shows "exponent_of x = e"
proof -
  have "x \<noteq> 0"
  proof
    assume "x = 0"
    with assms(1) have "(2::rat) powi e \<le> 0" by simp
    moreover have "0 < (2::rat) powi e" by simp
    ultimately show False by linarith
  qed
  then have "2 powi (exponent_of x) \<le> \<bar>x\<bar> \<and> \<bar>x\<bar> < 2 powi (exponent_of x + 1)"
    by (rule exponent_of_bounds)
  with assms show ?thesis
    using exponent_unique[of "exponent_of x" "\<bar>x\<bar>" e] by blast
qed

lemma round_half_evenI:
  assumes "\<bar>q - of_int m\<bar> < 1 / 2"
  shows "round_half_even q = m"
proof -
  from assms have lo: "of_int m - 1 / 2 < q" and hi: "q < of_int m + 1 / 2" by linarith+
  consider "\<lfloor>q\<rfloor> = m" | "\<lfloor>q\<rfloor> = m - 1"
  proof -
    have "m - 1 \<le> \<lfloor>q\<rfloor>" using lo by (simp add: le_floor_iff) 
    moreover have "\<lfloor>q\<rfloor> \<le> m" using hi by (simp add: floor_le_iff)
    ultimately show ?thesis using that by linarith
  qed
  then show ?thesis
  proof cases
    case 1
    with hi show ?thesis by (simp add: round_half_even_def Let_def)
  next
    case 2
    with lo show ?thesis by (simp add: round_half_even_def Let_def)
  qed
qed

lemma round_half_even_int: "round_half_even (of_int m) = m"
  by (rule round_half_evenI) simp

lemma to_doubleI:
  assumes "2 powi e \<le> \<bar>x\<bar>" and "\<bar>x\<bar> < 2 powi (e + 1)"
    and "\<bar>x / 2 powi (e - 52) - of_int m\<bar> < 1 / 2"
  shows "to_double x = of_int m * 2 powi (e - 52)"
proof -
  have "x \<noteq> 0"
  proof
    assume "x = 0"
    with assms(1) have "(2::rat) powi e \<le> 0" by simp
    moreover have "0 < (2::rat) powi e" by simp
    ultimately show False by linarith
  qed
  moreover have "exponent_of x = e" using assms(1,2) by (rule exponent_ofI)
  moreover have "round_half_even (x / 2 powi (e - 52)) = m" using assms(3) by (rule round_half_evenI)
  ultimately show ?thesis by (simp add: to_double_def Let_def)
qed

text \<open>
  Rounding to a double is monotone on the non-negative numbers; it keeps a number within
  its binade.
\<close>

lemma round_half_even_bounds: "\<lfloor>q\<rfloor> \<le> round_half_even q \<and> round_half_even q \<le> \<lfloor>q\<rfloor> + 1"
  by (simp add: round_half_even_def Let_def)

lemma round_half_even_mono:
  assumes "q \<le> q'"
  shows "round_half_even q \<le> round_half_even q'"
proof (cases "\<lfloor>q\<rfloor> = \<lfloor>q'\<rfloor>")
  case True
  with assms have "q - of_int \<lfloor>q\<rfloor> \<le> q' - of_int \<lfloor>q'\<rfloor>" by simp
  with True show ?thesis by (auto simp add: round_half_even_def Let_def)
next
  case False
  with assms have "\<lfloor>q\<rfloor> + 1 \<le> \<lfloor>q'\<rfloor>" using floor_mono[of q q'] by linarith
  with round_half_even_bounds[of q] round_half_even_bounds[of q'] show ?thesis by linarith
qed

lemma significand_range:
  assumes "0 < x"
  shows "2 ^ 52 \<le> x / 2 powi (exponent_of x - 52) \<and> x / 2 powi (exponent_of x - 52) < 2 ^ 53"
proof -
  let ?e = "exponent_of x"
  from assms have "x \<noteq> 0" by simp
  from exponent_of_bounds[OF this] assms
  have lo: "2 powi ?e \<le> x" and hi: "x < 2 powi (?e + 1)" by simp_all
  have u: "(0::rat) < 2 powi (?e - 52)" by simp
  have a: "(2::rat) powi ?e = 2 ^ 52 * 2 powi (?e - 52)"
    using power_int_add[of "2::rat" 52 "?e - 52"] by simp
  have b: "(2::rat) powi (?e + 1) = 2 ^ 53 * 2 powi (?e - 52)"
    using power_int_add[of "2::rat" 53 "?e - 52"] by (simp add: add.commute)
  from lo a u have "2 ^ 52 \<le> x / 2 powi (?e - 52)" by (simp add: pos_le_divide_eq)
  moreover from hi b u have "x / 2 powi (?e - 52) < 2 ^ 53" by (simp add: pos_divide_less_eq)
  ultimately show ?thesis by simp
qed

lemma to_double_range:
  assumes "0 < x"
  shows "2 powi (exponent_of x) \<le> to_double x \<and> to_double x \<le> 2 powi (exponent_of x + 1)"
proof -
  let ?e = "exponent_of x"
  let ?u = "(2::rat) powi (?e - 52)"
  let ?q = "x / ?u"
  have u: "0 < ?u" by simp
  from significand_range[OF assms] have q: "2 ^ 52 \<le> ?q" "?q < 2 ^ 53" by simp_all
  have "round_half_even (of_int (2 ^ 52)) \<le> round_half_even ?q"
    using q(1) by (intro round_half_even_mono) simp
  then have m_lo: "2 ^ 52 \<le> round_half_even ?q" by (simp only: round_half_even_int)
  have "round_half_even ?q \<le> round_half_even (of_int (2 ^ 53))"
    using q(2) by (intro round_half_even_mono) simp
  then have m_hi: "round_half_even ?q \<le> 2 ^ 53" by (simp only: round_half_even_int)
  have td: "to_double x = of_int (round_half_even ?q) * ?u"
    using assms by (simp add: to_double_def Let_def)
  have a: "(2::rat) powi ?e = 2 ^ 52 * ?u"
    using power_int_add[of "2::rat" 52 "?e - 52"] by simp
  have b: "(2::rat) powi (?e + 1) = 2 ^ 53 * ?u"
    using power_int_add[of "2::rat" 53 "?e - 52"] by (simp add: add.commute)
  have "(2::rat) ^ 52 \<le> of_int (round_half_even ?q)"
    using m_lo by (metis of_int_le_iff of_int_numeral of_int_power)
  then have "2 ^ 52 * ?u \<le> of_int (round_half_even ?q) * ?u"
    using u by (simp add: mult_right_mono)
  moreover have "of_int (round_half_even ?q) \<le> (2::rat) ^ 53"
    using m_hi by (metis of_int_le_iff of_int_numeral of_int_power)
  then have "of_int (round_half_even ?q) * ?u \<le> 2 ^ 53 * ?u"
    using u by (simp add: mult_right_mono)
  ultimately show ?thesis by (simp only: td a b)
qed

lemma exponent_of_mono:
  assumes "0 < x" and "x \<le> y"
  shows "exponent_of x \<le> exponent_of y"
proof (rule ccontr)
  assume "\<not> exponent_of x \<le> exponent_of y"
  then have "exponent_of y + 1 \<le> exponent_of x" by simp
  then have "(2::rat) powi (exponent_of y + 1) \<le> 2 powi (exponent_of x)"
    by (intro power_int_increasing) simp_all
  moreover from assms have "x \<noteq> 0" "y \<noteq> 0" by simp_all
  then have "2 powi (exponent_of x) \<le> \<bar>x\<bar>" "\<bar>y\<bar> < 2 powi (exponent_of y + 1)"
    using exponent_of_bounds by blast+
  ultimately show False using assms by simp
qed

lemma to_double_mono_pos:
  assumes "0 < x" and "x \<le> y"
  shows "to_double x \<le> to_double y"
proof (cases "exponent_of x = exponent_of y")
  case True
  let ?u = "(2::rat) powi (exponent_of y - 52)"
  have u: "0 < ?u" by simp
  from assms u have "x / ?u \<le> y / ?u" by (simp add: divide_right_mono)
  then have "round_half_even (x / ?u) \<le> round_half_even (y / ?u)"
    by (rule round_half_even_mono)
  then have "(of_int (round_half_even (x / ?u)) :: rat) * ?u \<le> of_int (round_half_even (y / ?u)) * ?u"
    using u by (simp add: mult_right_mono)
  with assms True show ?thesis by (simp add: to_double_def Let_def)
next
  case False
  from assms have y: "0 < y" by simp
  from False exponent_of_mono[OF assms] have "exponent_of x + 1 \<le> exponent_of y" by simp
  then have "(2::rat) powi (exponent_of x + 1) \<le> 2 powi (exponent_of y)"
    by (intro power_int_increasing) simp_all
  with to_double_range[OF assms(1)] to_double_range[OF y] show ?thesis by linarith
qed

lemma to_double_nonneg: "0 \<le> x \<Longrightarrow> 0 \<le> to_double x"
proof (cases "x = 0")
  case True
  then show ?thesis by (simp add: to_double_def)
next
  case False
  assume "0 \<le> x"
  with False have "0 < x" by simp
  from to_double_range[OF this] have "2 powi (exponent_of x) \<le> to_double x" by simp
  moreover have "(0::rat) < 2 powi (exponent_of x)" by simp
  ultimately show ?thesis by linarith
qed

lemma to_double_mono:
  assumes "0 \<le> x" and "x \<le> y"
  shows "to_double x \<le> to_double y"
proof (cases "x = 0")
  case True
  with assms to_double_nonneg[of y] show ?thesis by (simp add: to_double_def)
next
  case False
  with assms have "0 < x" by simp
  then show ?thesis using assms(2) by (rule to_double_mono_pos)
qed

lemma to_double_one: "to_double 1 = 1"
  by (rule trans[OF to_doubleI[where e = "0" and m = 4503599627370496]]) simp_all

lemma Math_round_mono: "x \<le> y \<Longrightarrow> Math_round x \<le> Math_round y"
  by (simp add: Math_round_def floor_mono)

lemma round2_mono:
  assumes "0 \<le> x" and "x \<le> y"
  shows "round2 x \<le> round2 y"
proof -
  have "to_double (x * 100) \<le> to_double (y * 100)"
    using assms by (intro to_double_mono) simp_all
  then have k: "Math_round (to_double (x * 100)) \<le> Math_round (to_double (y * 100))"
    by (rule Math_round_mono)
  have "0 \<le> to_double (x * 100)" using assms by (intro to_double_nonneg) simp
  then have "0 \<le> Math_round (to_double (x * 100))" by (simp add: Math_round_def)
  then have "(0::rat) \<le> of_int (Math_round (to_double (x * 100))) / 100" by simp
  moreover have "(of_int (Math_round (to_double (x * 100))) :: rat) / 100
      \<le> of_int (Math_round (to_double (y * 100))) / 100"
    using k by (simp add: divide_right_mono)
  ultimately show ?thesis
    unfolding round2_def js_mul_def js_div_def by (rule to_double_mono)
qed

lemma literal_100: "to_double 100 = 100"
  by (rule trans[OF to_doubleI[where e = "6" and m = 7036874417766400]]) simp_all

text \<open>
  The double operations of the two example exits (last traded price 100, offset 0.5)
  and of the rounding of 100.005 and 10.075, each checked against its exponent and
  significand.
\<close>

lemma literal_100_005: "to_double (100005 / 1000) = 879653282685911 / 8796093022208"
  by (rule trans[OF to_doubleI[where e = "6" and m = 7037226261487288]]) simp_all

lemma literal_10_075: "to_double (10075 / 1000) = 2835860390359859 / 281474976710656"
  by (rule trans[OF to_doubleI[where e = "3" and m = 5671720780719718]]) simp_all

lemma literal_100_01: "to_double (10001 / 100) = 7037578105208177 / 70368744177664"
  by (rule trans[OF to_doubleI[where e = "6" and m = 7037578105208177]]) simp_all

lemma literal_10_07: "to_double (1007 / 100) = 1417226507738153 / 140737488355328"
  by (rule trans[OF to_doubleI[where e = "3" and m = 5668906030952612]]) simp_all

lemma literal_10_08: "to_double (1008 / 100) = 5674535530486825 / 562949953421312"
  by (rule trans[OF to_doubleI[where e = "3" and m = 5674535530486825]]) simp_all

lemma offset_half_percent: "js_div (1 / 2) 100 = 5764607523034235 / 1152921504606846976"
  unfolding js_div_def
  by (rule trans[OF to_doubleI[where e = "-8" and m = 5764607523034235]]) simp_all

lemma one_plus_half_percent: "js_add 1 (5764607523034235 / 1152921504606846976) = 1131529406376837 / 1125899906842624"
  unfolding js_add_def
  by (rule trans[OF to_doubleI[where e = "0" and m = 4526117625507348]]) simp_all

lemma hundred_up_half_percent: "js_mul 100 (1131529406376837 / 1125899906842624) = 7072058789855231 / 70368744177664"
  unfolding js_mul_def
  by (rule trans[OF to_doubleI[where e = "6" and m = 7072058789855231]]) simp_all

lemma hundred_up_scaled: "js_mul (7072058789855231 / 70368744177664) 100 = 5525045929574399 / 549755813888"
  unfolding js_mul_def
  by (rule trans[OF to_doubleI[where e = "13" and m = 5525045929574399]]) simp_all

lemma hundred_up_cents: "Math_round (5525045929574399 / 549755813888) = 10050"
  unfolding Math_round_def by (rule floor_unique) simp_all

lemma hundred_up_quotient: "js_div 10050 100 = 201 / 2"
  unfolding js_div_def
  by (rule trans[OF to_doubleI[where e = "6" and m = 7072058789855232]]) simp_all

lemma one_minus_half_percent: "js_sub 1 (5764607523034235 / 1152921504606846976) = 8962163258467287 / 9007199254740992"
  unfolding js_sub_def
  by (rule trans[OF to_doubleI[where e = "-1" and m = 8962163258467287]]) simp_all

lemma hundred_down_half_percent: "js_mul 100 (8962163258467287 / 9007199254740992) = 199 / 2"
  unfolding js_mul_def
  by (rule trans[OF to_doubleI[where e = "6" and m = 7001690045677568]]) simp_all

lemma hundred_down_scaled: "js_mul (199 / 2) 100 = 9950"
  unfolding js_mul_def
  by (rule trans[OF to_doubleI[where e = "13" and m = 5470070348185600]]) simp_all

lemma hundred_down_cents: "Math_round 9950 = 9950"
  unfolding Math_round_def by (rule floor_unique) simp_all

lemma hundred_down_quotient: "js_div 9950 100 = 199 / 2"
  unfolding js_div_def
  by (rule trans[OF to_doubleI[where e = "6" and m = 7001690045677568]]) simp_all

lemma boundary_100_005_scaled: "js_mul (879653282685911 / 8796093022208) 100 = 20001 / 2"
  unfolding js_mul_def
  by (rule trans[OF to_doubleI[where e = "13" and m = 5497833016786944]]) simp_all

lemma boundary_100_005_cents: "Math_round (20001 / 2) = 10001"
  unfolding Math_round_def by (rule floor_unique) simp_all

lemma boundary_100_005_quotient: "js_div 10001 100 = 7037578105208177 / 70368744177664"
  unfolding js_div_def
  by (rule trans[OF to_doubleI[where e = "6" and m = 7037578105208177]]) simp_all

lemma boundary_10_075_scaled: "js_mul (2835860390359859 / 281474976710656) 100 = 8862063719874559 / 8796093022208"
  unfolding js_mul_def
  by (rule trans[OF to_doubleI[where e = "9" and m = 8862063719874559]]) simp_all

lemma boundary_10_075_cents: "Math_round (8862063719874559 / 8796093022208) = 1007"
  unfolding Math_round_def by (rule floor_unique) simp_all

lemma boundary_10_075_quotient: "js_div 1007 100 = 1417226507738153 / 140737488355328"
  unfolding js_div_def
  by (rule trans[OF to_doubleI[where e = "3" and m = 5668906030952612]]) simp_all

lemma round2_hundred_up: "round2 (7072058789855231 / 70368744177664) = 201 / 2"
  by (simp only: round2_def hundred_up_scaled hundred_up_cents of_int_numeral
      hundred_up_quotient)

lemma round2_hundred_down: "round2 (199 / 2) = 199 / 2"
  by (simp only: round2_def hundred_down_scaled hundred_down_cents of_int_numeral
      hundred_down_quotient)

lemma round2_100_005:
  "round2 (879653282685911 / 8796093022208) = 7037578105208177 / 70368744177664"
  by (simp only: round2_def boundary_100_005_scaled boundary_100_005_cents of_int_numeral
      boundary_100_005_quotient)

lemma round2_10_075:
  "round2 (2835860390359859 / 281474976710656) = 1417226507738153 / 140737488355328"
  by (simp only: round2_def boundary_10_075_scaled boundary_10_075_cents of_int_numeral
      boundary_10_075_quotient)

lemma dhan_limitPrice_example: "dhan_limitPrice ''SELL'' 100 (1 / 2) = 201 / 2"
proof -
  have "dhan_limitPrice ''SELL'' 100 (1 / 2) =
          round2 (js_mul 100 (js_add 1 (js_div (1 / 2) 100)))"
    by (simp add: dhan_limitPrice_def)
  also have "\<dots> = round2 (7072058789855231 / 70368744177664)"
    by (simp only: offset_half_percent one_plus_half_percent hundred_up_half_percent)
  also have "\<dots> = 201 / 2" by (rule round2_hundred_up)
  finally show ?thesis .
qed

lemma zerodha_limitPrice_example: "zerodha_limitPrice ''SELL'' 100 (1 / 2) = 199 / 2"
proof -
  have "zerodha_limitPrice ''SELL'' 100 (1 / 2) =
          round2 (js_mul 100 (js_sub 1 (js_div (1 / 2) 100)))"
    by (simp add: zerodha_limitPrice_def)
  also have "\<dots> = round2 (199 / 2)"
    by (simp only: offset_half_percent one_minus_half_percent hundred_down_half_percent)
  also have "\<dots> = 199 / 2" by (rule round2_hundred_down)
  finally show ?thesis .
qed

section \<open>Properties of the limit and stop-loss exits\<close>

lemma dhan_priced_callback_zero:
  "dp_quantity position = 0 \<Longrightarrow>
     dhan_priced_callback env cache order_for position = ([], Inr Null)"
  by (simp add: dhan_priced_callback_def)

lemma dhan_priced_callback_null:
  "snd (dhan_priced_callback env cache order_for position) = Inr r \<Longrightarrow>
     (r = Null) = (dp_quantity position = 0)"
  by (auto simp add: dhan_priced_callback_def split: if_splits sum.splits prod.splits)

lemma entries_pointwise:
  assumes "map g ps = map Inr rs"
    and "\<And>p r. g p = Inr r \<Longrightarrow> (r = Null) = (q p = (0::int))"
  shows "map (\<lambda>r. r = Null) rs = map (\<lambda>p. q p = 0) ps"
  using assms(1)
proof (induction ps arbitrary: rs)
  case Nil
  then show ?case by simp
next
  case (Cons p ps)
  then obtain r rs' where rs: "rs = r # rs'" "g p = Inr r" "map g ps = map Inr rs'"
    by (cases rs) auto
  with Cons.IH[of rs'] assms(2)[of p r] show ?case by simp
qed

text \<open>
  What the limit and stop-loss exits of the Dhan client report when they succeed: one
  entry per position, zero-quantity positions included, and the entry of a position is
  \<^verbatim>\<open>null\<close> exactly when its quantity is 0. No request is sent for such a position.
\<close>

lemma dhan_exit_priced_entries:
  assumes "positions_api env = Inr (Some positions)"
    and "snd (dhan_exit_priced env cache order_for) = Inr report"
  shows "agg_count report = length positions
       \<and> length (agg_details report) = length positions
       \<and> map (\<lambda>r. r = Null) (agg_details report) =
           map (\<lambda>position. dp_quantity position = 0) positions"
proof -
  let ?cb = "dhan_priced_callback env cache order_for"
  from assms obtain results where
    res: "promise_all (map (\<lambda>position. snd (?cb position)) positions) = Inr results"
    and rep: "report = aggregate_of results"
    by (auto simp add: dhan_exit_priced_def dhan_listPositions_def run_all_def
        Boolean_promise_def comp_def split: sum.splits prod.splits)
  from res have eq: "map (\<lambda>position. snd (?cb position)) positions = map Inr results"
    by (rule promise_all_Inr_D)
  then have len: "length results = length positions" by (metis length_map)
  have "map (\<lambda>r. r = Null) results = map (\<lambda>position. dp_quantity position = 0) positions"
    using eq dhan_priced_callback_null by (rule entries_pointwise)
  with len rep show ?thesis by (simp add: aggregate_of_def)
qed

text \<open>
  The priced exits at the example positions and the accepting broker, for any order
  that keeps the position's security id.
\<close>

lemma dhan_exit_priced_example:
  assumes ids: "\<And>position ltp. p_securityId (order_for position ltp) = dp_securityId position"
  shows "\<exists>request.
           dhan_exit_priced example_dhan_broker None order_for =
             ([ListPositions, GetLTP ''NSE'' (JStr ''11536''), PlaceOrder request],
              Inr \<lparr>agg_success = True, agg_count = 2,
                   agg_details =
                     [Null,
                      Val \<lparr>r_orderId = JStr ''ORDER-1'', r_status = ''success'',
                           r_message = ''Order placed successfully''\<rparr>]\<rparr>)"
proof -
  let ?flat = "\<lparr>dp_securityId = JStr ''1333'', dp_exchange = ''NSE'', dp_quantity = 0,
                 dp_product = Some ''INTRADAY''\<rparr>"
  let ?long = "\<lparr>dp_securityId = JStr ''11536'', dp_exchange = ''NSE'', dp_quantity = 10,
                 dp_product = Some ''INTRADAY''\<rparr>"
  let ?cb = "dhan_priced_callback example_dhan_broker None order_for"
  let ?request = "dhan_build (JStr ''11536'') (str_val (p_exchange (order_for ?long 100)))
                    (order_for ?long 100)"
  have listed: "dhan_listPositions example_dhan_broker = ([ListPositions], Inr [?flat, ?long])"
    by (simp add: dhan_listPositions_def example_dhan_broker_def example_dhan_positions_def)
  have flat: "?cb ?flat = ([], Inr Null)"
    by (simp add: dhan_priced_callback_zero)
  have long: "?cb ?long =
      ([GetLTP ''NSE'' (JStr ''11536''), PlaceOrder ?request],
       Inr (Val \<lparr>r_orderId = JStr ''ORDER-1'', r_status = ''success'',
                 r_message = ''Order placed successfully''\<rparr>))"
    by (simp add: dhan_priced_callback_def dhan_placeOrder_def dhan_orderRequest_def ids
        example_dhan_broker_def)
  have "dhan_exit_priced example_dhan_broker None order_for =
      ([ListPositions, GetLTP ''NSE'' (JStr ''11536''), PlaceOrder ?request],
       Inr \<lparr>agg_success = True, agg_count = 2,
            agg_details =
              [Null,
               Val \<lparr>r_orderId = JStr ''ORDER-1'', r_status = ''success'',
                    r_message = ''Order placed successfully''\<rparr>]\<rparr>)"
    by (simp add: dhan_exit_priced_def listed run_all_def Boolean_promise_def
        aggregate_of_def flat long)
  then show ?thesis by blast
qed

text \<open>
  C3. The limit and stop-loss exits are claimed to report exactly the positions with
  non-zero quantity, with no \<^verbatim>\<open>null\<close> entry for the skipped ones. At the example
  positions, one with quantity 0 and one long 10, both exits of the Dhan client place a
  single order and still report a count of 2 and two entries, the first being
  \<^verbatim>\<open>null\<close>: the \<^verbatim>\<open>async\<close> callback wraps its \<^verbatim>\<open>null\<close> in a promise, which
  \<^verbatim>\<open>.filter(Boolean)\<close> keeps.
\<close>

theorem priced_exit_reports_null_entries:
  "map dp_quantity example_dhan_positions = [0, 10]
   \<and> (\<exists>request.
        dhan_exitAllPositionsLimit example_dhan_broker None None =
          ([ListPositions, GetLTP ''NSE'' (JStr ''11536''), PlaceOrder request],
           Inr \<lparr>agg_success = True, agg_count = 2,
                agg_details =
                  [Null,
                   Val \<lparr>r_orderId = JStr ''ORDER-1'', r_status = ''success'',
                        r_message = ''Order placed successfully''\<rparr>]\<rparr>))
   \<and> (\<exists>request.
        dhan_exitAllPositionsAddStopLoss example_dhan_broker None None =
          ([ListPositions, GetLTP ''NSE'' (JStr ''11536''), PlaceOrder request],
           Inr \<lparr>agg_success = True, agg_count = 2,
                agg_details =
                  [Null,
                   Val \<lparr>r_orderId = JStr ''ORDER-1'', r_status = ''success'',
                        r_message = ''Order placed successfully''\<rparr>]\<rparr>))"
proof (intro conjI)
  show "map dp_quantity example_dhan_positions = [0, 10]"
    by (simp add: example_dhan_positions_def)
  show "\<exists>request.
        dhan_exitAllPositionsLimit example_dhan_broker None None =
          ([ListPositions, GetLTP ''NSE'' (JStr ''11536''), PlaceOrder request],
           Inr \<lparr>agg_success = True, agg_count = 2,
                agg_details =
                  [Null,
                   Val \<lparr>r_orderId = JStr ''ORDER-1'', r_status = ''success'',
                        r_message = ''Order placed successfully''\<rparr>]\<rparr>)"
    unfolding dhan_exitAllPositionsLimit_def
    by (rule dhan_exit_priced_example) (simp add: dhan_limit_params_def Let_def)
  show "\<exists>request.
        dhan_exitAllPositionsAddStopLoss example_dhan_broker None None =
          ([ListPositions, GetLTP ''NSE'' (JStr ''11536''), PlaceOrder request],
           Inr \<lparr>agg_success = True, agg_count = 2,
                agg_details =
                  [Null,
                   Val \<lparr>r_orderId = JStr ''ORDER-1'', r_status = ''success'',
                        r_message = ''Order placed successfully''\<rparr>]\<rparr>)"
    unfolding dhan_exitAllPositionsAddStopLoss_def
    by (rule dhan_exit_priced_example) (simp add: dhan_stoploss_params_def Let_def)
qed

section \<open>Properties of the computed prices\<close>

lemma zero_percent: "js_div 0 100 = 0"
  by (simp add: js_div_def to_double_def)

lemma one_plus_zero: "js_add 1 0 = 1"
  unfolding js_add_def
  by (rule trans[OF to_doubleI[where e = "0" and m = 4503599627370496]]) simp_all

lemma boundary_10_075_times_one:
  "js_mul (2835860390359859 / 281474976710656) 1 = 2835860390359859 / 281474976710656"
  unfolding js_mul_def
  by (rule trans[OF to_doubleI[where e = "3" and m = 5671720780719718]]) simp_all

lemma dhan_limit_params_price:
  "p_price (dhan_limit_params priceOffset position ltp) =
     Some (round2 (if 0 < dp_quantity position
                   then js_mul ltp (js_add 1 (js_div (num_or priceOffset 0) 100))
                   else js_mul ltp (js_sub 1 (js_div (num_or priceOffset 0) 100))))"
  by (simp add: dhan_limit_params_def dhan_limitPrice_def Let_def)

lemma zerodha_limit_params_price:
  "p_price (zerodha_limit_params priceOffset position ltp) =
     Some (round2 (if 0 < zp_quantity position
                   then js_mul ltp (js_sub 1 (js_div (num_or priceOffset 0) 100))
                   else js_mul ltp (js_add 1 (js_div (num_or priceOffset 0) 100))))"
  by (simp add: zerodha_limit_params_def zerodha_limitPrice_def Let_def)

lemma dhan_stoploss_params_trigger:
  "p_triggerPrice (dhan_stoploss_params slPercentage position ltp) =
     Some (round2 (if 0 < dp_quantity position
                   then js_mul ltp (js_sub 1 (js_div (num_or slPercentage 1) 100))
                   else js_mul ltp (js_add 1 (js_div (num_or slPercentage 1) 100))))"
  by (simp add: dhan_stoploss_params_def dhan_triggerPrice_def Let_def)

text \<open>
  For a non-negative last traded price and offset the Dhan SELL limit is nowhere below
  the rounded price, and the Zerodha SELL limit (offset at most 100) nowhere above it.
\<close>

lemma dhan_sell_limit_not_below:
  assumes "0 \<le> ltp" and "0 \<le> offset"
  shows "round2 (to_double ltp) \<le> dhan_limitPrice ''SELL'' ltp offset"
proof -
  have "0 \<le> js_div offset 100"
    unfolding js_div_def using assms(2) by (intro to_double_nonneg) simp
  then have "to_double 1 \<le> js_add 1 (js_div offset 100)"
    unfolding js_add_def by (intro to_double_mono) simp_all
  then have "1 \<le> js_add 1 (js_div offset 100)" by (simp only: to_double_one)
  then have "ltp \<le> ltp * js_add 1 (js_div offset 100)"
    using assms(1) by (simp add: mult_le_cancel_left1)
  then have "to_double ltp \<le> js_mul ltp (js_add 1 (js_div offset 100))"
    unfolding js_mul_def using assms(1) by (intro to_double_mono)
  moreover have "0 \<le> to_double ltp" using assms(1) by (rule to_double_nonneg)
  ultimately have "round2 (to_double ltp) \<le> round2 (js_mul ltp (js_add 1 (js_div offset 100)))"
    by (intro round2_mono)
  then show ?thesis by (simp add: dhan_limitPrice_def)
qed

lemma zerodha_sell_limit_not_above:
  assumes "0 \<le> ltp" and "0 \<le> offset" and "offset \<le> 100"
  shows "zerodha_limitPrice ''SELL'' ltp offset \<le> round2 (to_double ltp)"
proof -
  have p0: "0 \<le> js_div offset 100"
    unfolding js_div_def using assms(2) by (intro to_double_nonneg) simp
  have "to_double (offset / 100) \<le> to_double 1"
    using assms by (intro to_double_mono) simp_all
  then have p1: "js_div offset 100 \<le> 1" by (simp only: js_div_def to_double_one)
  have "to_double (1 - js_div offset 100) \<le> to_double 1"
    using p0 p1 by (intro to_double_mono) simp_all
  then have f1: "js_sub 1 (js_div offset 100) \<le> 1" by (simp only: js_sub_def to_double_one)
  have f0: "0 \<le> js_sub 1 (js_div offset 100)"
    unfolding js_sub_def using p1 by (intro to_double_nonneg) simp
  have "ltp * js_sub 1 (js_div offset 100) \<le> ltp"
    using assms(1) f1 by (simp add: mult_le_cancel_left2)
  moreover have "0 \<le> ltp * js_sub 1 (js_div offset 100)" using assms(1) f0 by simp
  ultimately have le: "js_mul ltp (js_sub 1 (js_div offset 100)) \<le> to_double ltp"
    unfolding js_mul_def by (intro to_double_mono)
  have "0 \<le> js_mul ltp (js_sub 1 (js_div offset 100))"
    unfolding js_mul_def using assms(1) f0 by (intro to_double_nonneg) simp
  with le have "round2 (js_mul ltp (js_sub 1 (js_div offset 100))) \<le> round2 (to_double ltp)"
    by (intro round2_mono)
  then show ?thesis by (simp add: zerodha_limitPrice_def)
qed

text \<open>
  C2 (as amended). For a position with quantity > 0 (a SELL exit) the limit price that
  \<^verbatim>\<open>exitAllPositionsLimit\<close> hands to \<^verbatim>\<open>placeOrder\<close> is, rounded to 2 decimals,
  LTP \<open>\<times>\<close> (1 + offset/100) in the Dhan client and LTP \<open>\<times>\<close> (1 - offset/100) in the
  Zerodha client, in double arithmetic, where the offset is \<^verbatim>\<open>priceOffset\<close>, or 0 when
  that is absent or 0. For a non-negative LTP and offset the Dhan price is at or above
  the LTP rounded to 2 decimals, and the Zerodha price (offset at most 100) at or below
  it. At LTP 100 and offset 0.5 the Dhan price is 100.50 and the Zerodha price is 99.50.
\<close>

theorem limit_price_sell_exit:
  "(0 < dp_quantity position \<longrightarrow>
      p_transactionType (dhan_limit_params priceOffset position ltp) = ''SELL''
      \<and> p_orderType (dhan_limit_params priceOffset position ltp) = ''LIMIT''
      \<and> p_price (dhan_limit_params priceOffset position ltp) =
          Some (round2 (js_mul ltp (js_add 1 (js_div (num_or priceOffset 0) 100)))))
   \<and> (0 < zp_quantity zposition \<longrightarrow>
      p_transactionType (zerodha_limit_params priceOffset zposition ltp) = ''SELL''
      \<and> p_orderType (zerodha_limit_params priceOffset zposition ltp) = ''LIMIT''
      \<and> p_price (zerodha_limit_params priceOffset zposition ltp) =
          Some (round2 (js_mul ltp (js_sub 1 (js_div (num_or priceOffset 0) 100)))))
   \<and> (0 \<le> ltp \<and> to_double ltp = ltp \<and> 0 \<le> offset \<longrightarrow>
      round2 ltp \<le> round2 (js_mul ltp (js_add 1 (js_div offset 100))))
   \<and> (0 \<le> ltp \<and> to_double ltp = ltp \<and> 0 \<le> offset \<and> offset \<le> 100 \<longrightarrow>
      round2 (js_mul ltp (js_sub 1 (js_div offset 100))) \<le> round2 ltp)
   \<and> round2 (js_mul 100 (js_add 1 (js_div (1 / 2) 100))) = 201 / 2
   \<and> round2 (js_mul 100 (js_sub 1 (js_div (1 / 2) 100))) = 199 / 2"
proof (intro conjI impI)
  assume "0 \<le> ltp \<and> to_double ltp = ltp \<and> 0 \<le> offset"
  then show "round2 ltp \<le> round2 (js_mul ltp (js_add 1 (js_div offset 100)))"
    using dhan_sell_limit_not_below[of ltp offset] by (simp add: dhan_limitPrice_def)
next
  assume "0 \<le> ltp \<and> to_double ltp = ltp \<and> 0 \<le> offset \<and> offset \<le> 100"
  then show "round2 (js_mul ltp (js_sub 1 (js_div offset 100))) \<le> round2 ltp"
    using zerodha_sell_limit_not_above[of ltp offset] by (simp add: zerodha_limitPrice_def)
next
  assume "0 < dp_quantity position"
  then show "p_transactionType (dhan_limit_params priceOffset position ltp) = ''SELL''"
    and "p_orderType (dhan_limit_params priceOffset position ltp) = ''LIMIT''"
    and "p_price (dhan_limit_params priceOffset position ltp) =
          Some (round2 (js_mul ltp (js_add 1 (js_div (num_or priceOffset 0) 100))))"
    by (simp_all add: dhan_limit_params_def dhan_limitPrice_def Let_def)
next
  assume "0 < zp_quantity zposition"
  then show "p_transactionType (zerodha_limit_params priceOffset zposition ltp) = ''SELL''"
    and "p_orderType (zerodha_limit_params priceOffset zposition ltp) = ''LIMIT''"
    and "p_price (zerodha_limit_params priceOffset zposition ltp) =
          Some (round2 (js_mul ltp (js_sub 1 (js_div (num_or priceOffset 0) 100))))"
    by (simp_all add: zerodha_limit_params_def zerodha_limitPrice_def Let_def)
next
  show "round2 (js_mul 100 (js_add 1 (js_div (1 / 2) 100))) = 201 / 2"
    using dhan_limitPrice_example by (simp add: dhan_limitPrice_def)
  show "round2 (js_mul 100 (js_sub 1 (js_div (1 / 2) 100))) = 199 / 2"
    using zerodha_limitPrice_example by (simp add: zerodha_limitPrice_def)
qed

text \<open>
  The theorem at the long example positions, LTP 100 and offset 0.5: the Dhan order is
  a SELL limit order at 100.50, the Zerodha order a SELL limit order at 99.50.
\<close>

theorem limit_price_sell_exit_witness:
  "p_transactionType (dhan_limit_params (Some (1 / 2)) (example_dhan_positions ! 1) 100) = ''SELL''
   \<and> p_price (dhan_limit_params (Some (1 / 2)) (example_dhan_positions ! 1) 100) = Some (201 / 2)
   \<and> p_transactionType (zerodha_limit_params (Some (1 / 2)) (example_zerodha_positions ! 1) 100)
       = ''SELL''
   \<and> p_price (zerodha_limit_params (Some (1 / 2)) (example_zerodha_positions ! 1) 100)
       = Some (199 / 2)
   \<and> round2 100 \<le> (201 / 2 :: rat) \<and> (199 / 2 :: rat) \<le> round2 100"
proof -
  have long: "0 < dp_quantity (example_dhan_positions ! 1)"
    "0 < zp_quantity (example_zerodha_positions ! 1)"
    by (simp_all add: example_dhan_positions_def example_zerodha_positions_def)
  have offset: "num_or (Some (1 / 2)) 0 = 1 / 2" by simp
  have quote: "(0::rat) \<le> 100 \<and> to_double 100 = 100 \<and> (0::rat) \<le> 1 / 2"
    "(0::rat) \<le> 100 \<and> to_double 100 = 100 \<and> (0::rat) \<le> 1 / 2 \<and> (1 / 2 :: rat) \<le> 100"
    by (simp_all add: literal_100)
  from limit_price_sell_exit
         [of "example_dhan_positions ! 1" "Some (1 / 2)" 100 "example_zerodha_positions ! 1"
             "1 / 2"]
       long quote
  show ?thesis by (simp add: offset)
qed

text \<open>
  C2 as stated fails for the Zerodha client. At the example positions, LTP 100 and
  offset 0.5, the claimed limit price LTP \<open>\<times>\<close> (1 + offset/100) is 100.50; the order that
  goes out for the long position has the limit price 99.50.
\<close>

theorem zerodha_limit_price_counterexample:
  "round2 (js_mul 100 (js_add 1 (js_div (1 / 2) 100))) = 201 / 2
   \<and> zerodha_exitAllPositionsLimit example_zerodha_broker None (Some (1 / 2)) =
     ([ListPositions, GetLTP ''NSE'' (JStr ''TCS''),
       PlaceOrder
         \<lparr>zr_exchange = ''NSE'', zr_tradingsymbol = ''TCS'', zr_transaction_type = ''SELL'',
          zr_quantity = 10, zr_product = JStr ''MIS'', zr_order_type = JStr ''LIMIT'',
          zr_validity = ''day'', zr_variety = ''regular'', zr_price = Some (199 / 2),
          zr_trigger_price = None\<rparr>],
      Inr \<lparr>agg_success = True, agg_count = 2,
           agg_details =
             [Null,
              Val \<lparr>r_orderId = JStr ''ORDER-1'', r_status = ''success'',
                   r_message = ''Order placed successfully''\<rparr>]\<rparr>)"
proof -
  let ?flat = "\<lparr>zp_tradingsymbol = ''HDFCBANK'', zp_exchange = ''NSE'', zp_quantity = 0,
                 zp_product = Some ''MIS''\<rparr>"
  let ?long = "\<lparr>zp_tradingsymbol = ''TCS'', zp_exchange = ''NSE'', zp_quantity = 10,
                 zp_product = Some ''MIS''\<rparr>"
  let ?cb = "zerodha_limit_callback example_zerodha_broker None (Some (1 / 2))"
  have claimed: "round2 (js_mul 100 (js_add 1 (js_div (1 / 2) 100))) = 201 / 2"
    using dhan_limitPrice_example by (simp add: dhan_limitPrice_def)
  have listed:
    "zerodha_listPositions example_zerodha_broker = ([ListPositions], Inr [?flat, ?long])"
    by (simp add: zerodha_listPositions_def example_zerodha_broker_def
        example_zerodha_positions_def)
  have order: "zerodha_limit_params (Some (1 / 2)) ?long 100 =
      \<lparr>p_symbolName = Some ''TCS'', p_securityId = JUndefined, p_exchange = Some ''NSE'',
       p_transactionType = ''SELL'', p_orderType = ''LIMIT'', p_quantity = 10,
       p_price = Some (199 / 2), p_triggerPrice = None, p_validity = None, p_variety = None,
       p_product = Some ''MIS''\<rparr>"
    by (simp add: zerodha_limit_params_def Let_def zerodha_limitPrice_example)
  have request: "zerodha_orderRequest None (zerodha_limit_params (Some (1 / 2)) ?long 100) =
      Inr \<lparr>zr_exchange = ''NSE'', zr_tradingsymbol = ''TCS'', zr_transaction_type = ''SELL'',
           zr_quantity = 10, zr_product = JStr ''MIS'', zr_order_type = JStr ''LIMIT'',
           zr_validity = ''day'', zr_variety = ''regular'', zr_price = Some (199 / 2),
           zr_trigger_price = None\<rparr>"
    unfolding order
    by (simp add: zerodha_orderRequest_def zerodha_build_def zerodha_mapProduct_def
        zerodha_mapOrderType_def js_or_def js_get_def zerodha_productMap_def
        zerodha_orderTypeMap_def)
  have flat: "?cb ?flat = ([], Inr Null)"
    by (simp add: zerodha_limit_callback_def)
  have long: "?cb ?long =
      ([GetLTP ''NSE'' (JStr ''TCS''),
        PlaceOrder
          \<lparr>zr_exchange = ''NSE'', zr_tradingsymbol = ''TCS'', zr_transaction_type = ''SELL'',
           zr_quantity = 10, zr_product = JStr ''MIS'', zr_order_type = JStr ''LIMIT'',
           zr_validity = ''day'', zr_variety = ''regular'', zr_price = Some (199 / 2),
           zr_trigger_price = None\<rparr>],
       Inr (Val \<lparr>r_orderId = JStr ''ORDER-1'', r_status = ''success'',
                 r_message = ''Order placed successfully''\<rparr>))"
  proof -
    have quoted: "ltp_api example_zerodha_broker ''NSE'' (JStr ''TCS'') = Inr 100"
      and accepted: "\<And>r. place_api example_zerodha_broker r = Inr (JStr ''ORDER-1'')"
      by (simp_all add: example_zerodha_broker_def)
    show ?thesis
      by (simp add: zerodha_limit_callback_def zerodha_placeOrder_def quoted accepted request)
  qed
  have "zerodha_exitAllPositionsLimit example_zerodha_broker None (Some (1 / 2)) =
     ([ListPositions, GetLTP ''NSE'' (JStr ''TCS''),
       PlaceOrder
         \<lparr>zr_exchange = ''NSE'', zr_tradingsymbol = ''TCS'', zr_transaction_type = ''SELL'',
          zr_quantity = 10, zr_product = JStr ''MIS'', zr_order_type = JStr ''LIMIT'',
          zr_validity = ''day'', zr_variety = ''regular'', zr_price = Some (199 / 2),
          zr_trigger_price = None\<rparr>],
      Inr \<lparr>agg_success = True, agg_count = 2,
           agg_details =
             [Null,
              Val \<lparr>r_orderId = JStr ''ORDER-1'', r_status = ''success'',
                   r_message = ''Order placed successfully''\<rparr>]\<rparr>)"
    by (simp add: zerodha_exitAllPositionsLimit_def listed run_all_def Boolean_promise_def
        aggregate_of_def flat long)
  with claimed show ?thesis by blast
qed

text \<open>
  C9 (as amended). Every limit price and every stop-loss trigger price of the exit
  variants is the raw price passed through \<^verbatim>\<open>Math.round(price * 100) / 100\<close> in double
  arithmetic: the double nearest to \<open>k / 100\<close>, where \<open>k\<close> is the product
  \<open>price \<times> 100\<close>, itself rounded to a double, rounded to the nearest integer with a tie
  going up. The double for 100.005 is rounded to the double for 100.01; the double for
  10.075 is rounded to the double for 10.07, because its product with 100 is the double
  just below 1007.5.
\<close>

theorem price_rounding_in_doubles:
  "p_price (dhan_limit_params priceOffset position ltp) =
     Some (round2 (if 0 < dp_quantity position
                   then js_mul ltp (js_add 1 (js_div (num_or priceOffset 0) 100))
                   else js_mul ltp (js_sub 1 (js_div (num_or priceOffset 0) 100))))
   \<and> p_triggerPrice (dhan_stoploss_params slPercentage position ltp) =
     Some (round2 (if 0 < dp_quantity position
                   then js_mul ltp (js_sub 1 (js_div (num_or slPercentage 1) 100))
                   else js_mul ltp (js_add 1 (js_div (num_or slPercentage 1) 100))))
   \<and> round2 price = to_double (of_int (Math_round (to_double (price * 100))) / 100)
   \<and> of_int (Math_round y) - 1 / 2 \<le> y \<and> y < of_int (Math_round y) + 1 / 2
   \<and> round2 (to_double (100005 / 1000)) = to_double (10001 / 100)
   \<and> js_mul (to_double (10075 / 1000)) 100 < 1007 + 1 / 2
   \<and> round2 (to_double (10075 / 1000)) = to_double (1007 / 100)"
proof (intro conjI)
  show "p_price (dhan_limit_params priceOffset position ltp) =
     Some (round2 (if 0 < dp_quantity position
                   then js_mul ltp (js_add 1 (js_div (num_or priceOffset 0) 100))
                   else js_mul ltp (js_sub 1 (js_div (num_or priceOffset 0) 100))))"
    by (rule dhan_limit_params_price)
  show "p_triggerPrice (dhan_stoploss_params slPercentage position ltp) =
     Some (round2 (if 0 < dp_quantity position
                   then js_mul ltp (js_sub 1 (js_div (num_or slPercentage 1) 100))
                   else js_mul ltp (js_add 1 (js_div (num_or slPercentage 1) 100))))"
    by (rule dhan_stoploss_params_trigger)
  show "round2 price = to_double (of_int (Math_round (to_double (price * 100))) / 100)"
    by (simp add: round2_def js_mul_def js_div_def)
  show "of_int (Math_round y) - 1 / 2 \<le> y"
    unfolding Math_round_def using of_int_floor_le[of "y + 1 / 2"] by linarith
  show "y < of_int (Math_round y) + 1 / 2"
    unfolding Math_round_def using floor_correct[of "y + 1 / 2"] by linarith
  show "round2 (to_double (100005 / 1000)) = to_double (10001 / 100)"
    by (simp only: literal_100_005 literal_100_01 round2_100_005)
  show "js_mul (to_double (10075 / 1000)) 100 < 1007 + 1 / 2"
    unfolding literal_10_075 boundary_10_075_scaled by simp
  show "round2 (to_double (10075 / 1000)) = to_double (1007 / 100)"
    by (simp only: literal_10_075 literal_10_07 round2_10_075)
qed

text \<open>
  C9 as stated fails at the boundary value 10.075. With a last traded price of 10.075
  and no offset, the limit price of a SELL exit is the double for 10.07, which is below
  the double for 10.08 that rounding half up at the cent level would give.
\<close>

theorem boundary_rounds_down_counterexample:
  "dhan_limitPrice ''SELL'' (to_double (10075 / 1000)) 0 = to_double (1007 / 100)
   \<and> to_double (1007 / 100) < to_double (1008 / 100)"
proof -
  have "dhan_limitPrice ''SELL'' (to_double (10075 / 1000)) 0 =
          round2 (js_mul (2835860390359859 / 281474976710656) (js_add 1 (js_div 0 100)))"
    unfolding literal_10_075 by (simp add: dhan_limitPrice_def)
  also have "\<dots> = round2 (2835860390359859 / 281474976710656)"
    by (simp only: zero_percent one_plus_zero boundary_10_075_times_one)
  also have "\<dots> = to_double (1007 / 100)"
    by (simp only: round2_10_075 literal_10_07)
  finally have price: "dhan_limitPrice ''SELL'' (to_double (10075 / 1000)) 0 =
      to_double (1007 / 100)" .
  have "to_double (1007 / 100) < to_double (1008 / 100)"
    unfolding literal_10_07 literal_10_08 by simp
  with price show ?thesis by blast
qed

end
